theory Spec2Isabelle
  imports Main
begin

section \<open>Argument quoting (\<open>escapeArgument\<close>, index.js lines 16-29)\<close>

text \<open>
  JavaScript strings are modelled as \<open>string\<close> (lists of characters). The two characters
  the quoting code looks at are written with their codes: the backslash and the double quote.
\<close>

definition backslash :: char where
  "backslash = CHR 0x5C"

definition dquote :: char where
  "dquote = CHR 0x22"

text \<open>
  The loop \<^verbatim>\<open>while (i < arg.length && arg[arg.length - 1 - i] == '\\') i++\<close>,
  started at \<open>i = 0\<close>: the function returns the value of \<open>i\<close> when the loop stops.
\<close>

function trailingBackslashes :: "string \<Rightarrow> nat \<Rightarrow> nat" where
  "trailingBackslashes arg i =
     (if i < length arg \<and> arg ! (length arg - 1 - i) = backslash
      then trailingBackslashes arg (i + 1)
      else i)"
  by pat_completeness auto
termination
  by (relation "measure (\<lambda>(arg, i). length arg - i)") auto

declare trailingBackslashes.simps [simp del]

text \<open>
  \<^verbatim>\<open>new Array(i + 1).join('\\')\<close> is the string of \<open>i\<close> backslashes: \<open>i + 1\<close> empty
  slots joined by \<open>i\<close> separators.
\<close>

definition escapeArgument :: "string \<Rightarrow> string" where
  "escapeArgument arg =
     (let i = trailingBackslashes arg 0;
          arg' = (if i > 0 then arg @ replicate i backslash else arg)
      in [dquote] @ arg' @ [dquote])"

text \<open>The length of the run of backslashes that ends a string.\<close>

definition trailingRun :: "string \<Rightarrow> nat" where
  "trailingRun s = length (takeWhile (\<lambda>c. c = backslash) (rev s))"

text \<open>
  Unquoting, as the compiler family the quoting is written for reads one argument of its
  command line (the Microsoft C runtime rules): backslashes are literal unless they precede a
  double quote; \<open>2n\<close> backslashes before a quote give \<open>n\<close> backslashes and the quote opens or
  closes a quoted part; \<open>2n + 1\<close> backslashes before a quote give \<open>n\<close> backslashes and a literal
  quote; a blank outside a quoted part ends the argument. The first parameter says whether the
  scan is inside a quoted part, the second counts the backslashes read and not yet emitted.
\<close>

fun unquoteArg :: "bool \<Rightarrow> nat \<Rightarrow> string \<Rightarrow> string" where
  "unquoteArg inq n [] = replicate n backslash"
| "unquoteArg inq n (c # cs) =
     (if c = backslash then unquoteArg inq (Suc n) cs
      else if c = dquote then
        replicate (n div 2) backslash @
          (if even n then unquoteArg (\<not> inq) 0 cs else dquote # unquoteArg inq 0 cs)
      else if \<not> inq \<and> (c = CHR '' '' \<or> c = CHR 0x09) then replicate n backslash
      else replicate n backslash @ c # unquoteArg inq 0 cs)"

definition unquote :: "string \<Rightarrow> string" where
  "unquote s = unquoteArg False 0 s"

section \<open>JavaScript values and strings\<close>

text \<open>
  Every \<^verbatim>\<open>throw new Error(msg)\<close> of the source is \<open>Error msg\<close>. \<open>TypeError\<close> is what the
  JavaScript engine raises when a property is read from \<open>undefined\<close> (its argument names the
  expression that failed). Failures of the operating system or of \<^verbatim>\<open>JSON.parse\<close> come from
  the environment, as any value of this type.
\<close>

datatype error = Error string | TypeError string

text \<open>
  The comparison \<^verbatim>\<open>a < b\<close> of two JavaScript strings: the first position where they differ
  decides, by character code; a proper prefix is smaller.
\<close>

fun js_str_lt :: "string \<Rightarrow> string \<Rightarrow> bool" where
  "js_str_lt [] [] = False"
| "js_str_lt [] (y # ys) = True"
| "js_str_lt (x # xs) [] = False"
| "js_str_lt (x # xs) (y # ys) =
     (if x = y then js_str_lt xs ys else (of_char x :: nat) < of_char y)"

text \<open>\<^verbatim>\<open>s.startsWith(p)\<close> and \<^verbatim>\<open>s.endsWith(p)\<close>.\<close>

definition startsWith :: "string \<Rightarrow> string \<Rightarrow> bool" where
  "startsWith s p \<longleftrightarrow> take (length p) s = p"

definition endsWith :: "string \<Rightarrow> string \<Rightarrow> bool" where
  "endsWith s p \<longleftrightarrow> length p \<le> length s \<and> drop (length s - length p) s = p"

text \<open>\<^verbatim>\<open>xs.join(sep)\<close> of an array of strings.\<close>

fun array_join :: "string \<Rightarrow> string list \<Rightarrow> string" where
  "array_join sep [] = []"
| "array_join sep [x] = x"
| "array_join sep (x # y # ys) = x @ sep @ array_join sep (y # ys)"

text \<open>
  \<^verbatim>\<open>s.split(c)\<close> at every character that satisfies \<open>P\<close>: \<open>n\<close> separators give \<open>n + 1\<close>
  pieces, the empty ones included.
\<close>

fun splitWhere :: "(char \<Rightarrow> bool) \<Rightarrow> string \<Rightarrow> string list" where
  "splitWhere P [] = [[]]"
| "splitWhere P (c # cs) =
     (if P c then [] # splitWhere P cs
      else (case splitWhere P cs of
              [] \<Rightarrow> [[c]]
            | s # ss \<Rightarrow> (c # s) # ss))"

text \<open>
  The truth value JavaScript gives to an option read from the action's inputs
  (\<^verbatim>\<open>core.getInput\<close> returns a string, a default options object has no such property).
\<close>

datatype jsvalue = JsUndefined | JsBool bool | JsString string

fun truthy :: "jsvalue \<Rightarrow> bool" where
  "truthy JsUndefined = False"
| "truthy (JsBool b) = b"
| "truthy (JsString s) = (s \<noteq> [])"

text \<open>\<^verbatim>\<open>iterateIfExists(object, property)\<close>: the property's array, or the empty array.\<close>

fun iterateIfExists :: "'a list option \<Rightarrow> 'a list" where
  "iterateIfExists None = []"
| "iterateIfExists (Some xs) = xs"

section \<open>Node's \<open>path\<close> module on Windows\<close>

text \<open>
  The action runs MSVC, so \<^verbatim>\<open>require('path')\<close> is \<^verbatim>\<open>path.win32\<close>: both slashes separate,
  the result is written with backslashes, and a root is a drive (\<open>C:\<close>), a UNC share or a
  leading separator. The functions follow Node's \<^verbatim>\<open>lib/path.js\<close>.
\<close>

definition isPathSeparator :: "char \<Rightarrow> bool" where
  "isPathSeparator c \<longleftrightarrow> c = CHR ''/'' \<or> c = backslash"

definition isWindowsDeviceRoot :: "char \<Rightarrow> bool" where
  "isWindowsDeviceRoot c \<longleftrightarrow>
     (65 \<le> (of_char c :: nat) \<and> (of_char c :: nat) \<le> 90) \<or>
     (97 \<le> (of_char c :: nat) \<and> (of_char c :: nat) \<le> 122)"

text \<open>
  One step of \<^verbatim>\<open>normalizeString\<close>, for the segment between two separators: an empty
  segment and \<open>.\<close> are dropped; \<open>..\<close> removes the last segment kept so far, unless there is
  none or it is \<open>..\<close> itself, in which case \<open>..\<close> is kept when the path may climb above its
  start; any other segment is kept.
\<close>

definition normalizeSegment :: "bool \<Rightarrow> string list \<Rightarrow> string \<Rightarrow> string list" where
  "normalizeSegment allowAboveRoot res seg =
     (if seg = [] \<or> seg = ''.'' then res
      else if seg = ''..'' then
        (if res \<noteq> [] \<and> last res \<noteq> ''..'' then butlast res
         else if allowAboveRoot then res @ [''..'']
         else res)
      else res @ [seg])"

definition normalizeString :: "string \<Rightarrow> bool \<Rightarrow> string" where
  "normalizeString path allowAboveRoot =
     array_join [backslash]
       (foldl (normalizeSegment allowAboveRoot) [] (splitWhere isPathSeparator path))"

text \<open>
  The root of a path of length at least two: the device (a drive or a UNC share), whether
  the path is absolute, and where the rest starts; or, for a path that is a UNC root and
  nothing else, the normalized root that \<^verbatim>\<open>normalize\<close> returns at once.
\<close>

datatype win32_root = Root "string option" bool nat | UncRootOnly string

definition skipWhile :: "(char \<Rightarrow> bool) \<Rightarrow> string \<Rightarrow> nat \<Rightarrow> nat" where
  "skipWhile P path j = j + length (takeWhile P (drop j path))"

definition slice :: "string \<Rightarrow> nat \<Rightarrow> nat \<Rightarrow> string" where
  "slice path i j = take (j - i) (drop i path)"

definition win32_parseRoot :: "string \<Rightarrow> win32_root" where
  "win32_parseRoot path =
     (let len = length path in
      if isPathSeparator (path ! 0) then
        (if isPathSeparator (path ! 1) then
           (let j1 = skipWhile (\<lambda>c. \<not> isPathSeparator c) path 2 in
            if j1 < len \<and> j1 \<noteq> 2 then
              (let firstPart = slice path 2 j1;
                   j2 = skipWhile isPathSeparator path j1 in
               if j2 < len \<and> j2 \<noteq> j1 then
                 (let j3 = skipWhile (\<lambda>c. \<not> isPathSeparator c) path j2 in
                  if j3 = len then
                    UncRootOnly ([backslash, backslash] @ firstPart @ [backslash] @
                                 slice path j2 len @ [backslash])
                  else if j3 \<noteq> j2 then
                    Root (Some ([backslash, backslash] @ firstPart @ [backslash] @
                                slice path j2 j3)) True j3
                  else Root None True 0)
               else Root None True 0)
            else Root None True 0)
         else Root None True 1)
      else if isWindowsDeviceRoot (path ! 0) \<and> path ! 1 = CHR '':'' then
        (if len > 2 \<and> isPathSeparator (path ! 2)
         then Root (Some (take 2 path)) True 3
         else Root (Some (take 2 path)) False 2)
      else Root None False 0)"

definition win32_normalize :: "string \<Rightarrow> string" where
  "win32_normalize path =
     (let len = length path in
      if len = 0 then ''.''
      else if len = 1 then (if path ! 0 = CHR ''/'' then [backslash] else path)
      else
        (case win32_parseRoot path of
           UncRootOnly r \<Rightarrow> r
         | Root device isAbsolute rootEnd \<Rightarrow>
             (let tail0 = (if rootEnd < len
                           then normalizeString (drop rootEnd path) (\<not> isAbsolute)
                           else []);
                  tail1 = (if tail0 = [] \<and> \<not> isAbsolute then ''.'' else tail0);
                  tail = (if tail1 \<noteq> [] \<and> isPathSeparator (path ! (len - 1))
                          then tail1 @ [backslash] else tail1)
              in (case device of
                    None \<Rightarrow> (if isAbsolute then [backslash] @ tail else tail)
                  | Some d \<Rightarrow> (if isAbsolute then d @ [backslash] @ tail else d @ tail)))))"

text \<open>
  \<^verbatim>\<open>path.join(...args)\<close>: the non-empty arguments joined by backslashes, leading separators
  collapsed to one unless the first argument starts like a UNC path, then normalized.
\<close>

definition win32_join :: "string list \<Rightarrow> string" where
  "win32_join args =
     (case filter (\<lambda>arg. length arg > 0) args of
        [] \<Rightarrow> ''.''
      | firstPart # rest \<Rightarrow>
          (let joined = array_join [backslash] (firstPart # rest);
               needsReplace =
                 \<not> (isPathSeparator (firstPart ! 0) \<and> length firstPart > 1 \<and>
                    isPathSeparator (firstPart ! 1) \<and> length firstPart > 2 \<and>
                    \<not> isPathSeparator (firstPart ! 2));
               slashCount = length (takeWhile isPathSeparator joined)
           in win32_normalize
                (if needsReplace \<and> slashCount \<ge> 2
                 then [backslash] @ drop slashCount joined
                 else joined)))"

text \<open>
  \<^verbatim>\<open>path.basename(path)\<close>: after a drive prefix and without trailing separators, what follows
  the last separator.
\<close>

definition win32_basename :: "string \<Rightarrow> string" where
  "win32_basename path =
     (let p = (if length path \<ge> 2 \<and> isWindowsDeviceRoot (path ! 0) \<and> path ! 1 = CHR '':''
               then drop 2 path else path)
      in rev (takeWhile (\<lambda>c. \<not> isPathSeparator c) (dropWhile isPathSeparator (rev p))))"

section \<open>Compiler paths (index.js lines 37-51)\<close>

definition extractVersionFromCompilerPath :: "string \<Rightarrow> string" where
  "extractVersionFromCompilerPath compilerPath =
     (let versionDir = win32_join [compilerPath, ''../../..'']
      in win32_basename versionDir)"

definition extractIncludesFromCompilerPath :: "string \<Rightarrow> string list" where
  "extractIncludesFromCompilerPath compilerPath =
     (let includeDir = win32_join [compilerPath, ''../../../include'']
      in [win32_normalize includeDir])"

section \<open>Reply documents and the state of \<open>CMakeApi\<close>\<close>

text \<open>
  A parsed reply document is a JSON object of which the code reads a handful of properties.
  A property that the code reads through \<^verbatim>\<open>iterateIfExists\<close>, or whose absence makes the
  code raise, is optional here (\<open>None\<close> when the object has no such property); the values
  themselves have the types the CMake file API gives them.
\<close>

record response =
  kind :: string
  response_jsonFile :: string

record queryReply =
  responses :: "response list option"

record clientReply =
  query_json :: "queryReply option"

record cacheEntry =
  entry_name :: string
  entry_value :: string

record targetRef =
  target_jsonFile :: string

record configuration =
  targets :: "targetRef list option"

record compilerDoc =
  compiler_id :: string
  compiler_path :: string
  compiler_version :: string
  compiler_includeDirectories :: "string list"

record toolchain =
  toolchain_language :: string
  toolchain_compiler :: compilerDoc

record commandFragment =
  fragment :: string

record includeEntry =
  include_path :: string
  isSystem :: "bool option"

record defineEntry =
  define_text :: string

record compileGroup =
  language :: string
  compileCommandFragments :: "commandFragment list option"
  group_includes :: "includeEntry list option"
  group_defines :: "defineEntry list option"
  sourceIndexes :: "nat list option"

record sourceEntry =
  source_path :: string

record pathsDoc =
  paths_source :: "string option"

record replyDoc =
  version_string :: "string option"
  reply :: "(string \<rightharpoonup> clientReply) option"
  entries :: "cacheEntry list option"
  configurations :: "configuration list option"
  data_paths :: "pathsDoc option"
  toolchains :: "toolchain list option"
  sources :: "sourceEntry list option"
  compileGroups :: "compileGroup list option"

record compilerInfo =
  info_path :: string
  info_version :: string
  info_includes :: "string list"

record CMakeApi =
  loaded :: bool
  cCompilerInfo :: "compilerInfo option"
  cxxCompilerInfo :: "compilerInfo option"
  sourceRoot :: "string option"
  cache :: "string \<rightharpoonup> string"
  targetFilepaths :: "string list"

text \<open>The object the constructor builds.\<close>

definition newCMakeApi :: CMakeApi where
  "newCMakeApi =
     \<lparr>loaded = False, cCompilerInfo = None, cxxCompilerInfo = None, sourceRoot = None,
      cache = Map.empty, targetFilepaths = []\<rparr>"

definition clientName :: string where
  "clientName = ''client-msvc-ca-action''"

record CompilerCommandOptions =
  ignoreSystemHeaders :: jsvalue
  usePrecompiledHeaders :: bool

record compileCommand =
  source :: string
  args :: string
  compiler :: compilerInfo

section \<open>The environment\<close>

text \<open>
  What the process sees of the machine it runs on: the working directory and the search
  path, which paths exist, the names in a directory, what reading and parsing a file gives,
  and whether creating a directory raises. A relative path means what the operating system
  makes of it; the environment is asked with the string the code passes.
\<close>

record env =
  cwd :: string
  envPATH :: string
  existsSync :: "string \<Rightarrow> bool"
  readdirSync :: "string \<Rightarrow> error + string list"
  readJson :: "string \<Rightarrow> error + replyDoc"
  mkdirSync :: "string \<Rightarrow> error option"

text \<open>
  What the code asks the machine to do, in the order of the calls: create a directory, write
  a file (\<^verbatim>\<open>fs.writeFile\<close> only queues the write), start a child process.
\<close>

datatype effect =
    MkDir string
  | WriteFile string "(string \<times> string) list"
  | Spawn string string

section \<open>Reading the replies (index.js lines 53-65 and 132-338)\<close>

fun findFirstExisting :: "env \<Rightarrow> string \<Rightarrow> string list \<Rightarrow> string option" where
  "findFirstExisting e executable [] = None"
| "findFirstExisting e executable (pathDir # rest) =
     (let executablePath = win32_join [pathDir, executable]
      in if existsSync e executablePath then Some executablePath
         else findFirstExisting e executable rest)"

definition findExecutableOnPath :: "env \<Rightarrow> string \<Rightarrow> error + string" where
  "findExecutableOnPath e executable =
     (let paths = cwd e @ '';'' @ envPATH e
      in case findFirstExisting e executable (splitWhere (\<lambda>c. c = CHR '';'') paths) of
           Some executablePath \<Rightarrow> Inr executablePath
         | None \<Rightarrow> Inl (Error (executable @ '' is not accessible on the PATH'')))"

definition parseReplyFile :: "env \<Rightarrow> string \<Rightarrow> error + replyDoc" where
  "parseReplyFile e replyFile =
     (if replyFile = [] then Inl (Error ''Failed to find CMake API reply file.'')
      else if \<not> existsSync e replyFile
      then Inl (Error (''Failed to find CMake API reply file: '' @ replyFile))
      else readJson e replyFile)"

definition queryData :: "(string \<times> string) list" where
  "queryData = [(''cache'', ''2''), (''codemodel'', ''2''), (''toolchains'', ''1'')]"

text \<open>
  \<open>createApiQuery\<close> returns what it asked of the machine, and the error if it raised.
\<close>

definition createApiQuery :: "env \<Rightarrow> string \<Rightarrow> effect list \<times> error option" where
  "createApiQuery e apiDir =
     (let queryDir = win32_join [apiDir, ''query'', clientName];
          queryFile = win32_join [queryDir, ''query.json'']
      in if \<not> existsSync e queryDir then
           (case mkdirSync e queryDir of
              Some err \<Rightarrow> ([], Some err)
            | None \<Rightarrow> ([MkDir queryDir, WriteFile queryFile queryData], None))
         else ([WriteFile queryFile queryData], None))"

text \<open>
  The loop of \<open>getApiReplyIndex\<close> over the names of the reply directory, with the variable
  \<^verbatim>\<open>indexFilepath\<close> (\<open>None\<close> while it is undefined).
\<close>

fun selectIndex :: "string option \<Rightarrow> string list \<Rightarrow> string option" where
  "selectIndex indexFilepath [] = indexFilepath"
| "selectIndex indexFilepath (filepath # rest) =
     (if startsWith (win32_basename filepath) ''index-'' then
        (if (case indexFilepath of None \<Rightarrow> True
             | Some current \<Rightarrow> current = [] \<or> js_str_lt current filepath)
         then selectIndex (Some filepath) rest
         else selectIndex indexFilepath rest)
      else selectIndex indexFilepath rest)"

definition getApiReplyIndex :: "env \<Rightarrow> string \<Rightarrow> error + replyDoc" where
  "getApiReplyIndex e apiDir =
     (let replyDir = win32_join [apiDir, ''reply'']
      in if \<not> existsSync e replyDir
         then Inl (Error ''Failed to generate CMake Api Reply files'')
         else (case readdirSync e replyDir of
                 Inl err \<Rightarrow> Inl err
               | Inr names \<Rightarrow>
                   (case selectIndex None names of
                      None \<Rightarrow> Inl (Error ''Failed to find CMake API index reply file.'')
                    | Some indexFilepath \<Rightarrow>
                        if indexFilepath = []
                        then Inl (Error ''Failed to find CMake API index reply file.'')
                        else parseReplyFile e indexFilepath)))"

fun storeEntries :: "(string \<rightharpoonup> string) \<Rightarrow> cacheEntry list \<Rightarrow> (string \<rightharpoonup> string)" where
  "storeEntries c [] = c"
| "storeEntries c (entry # rest) = storeEntries (c(entry_name entry \<mapsto> entry_value entry)) rest"

definition loadCache :: "env \<Rightarrow> CMakeApi \<Rightarrow> string \<Rightarrow> error + CMakeApi" where
  "loadCache e this cacheJsonFile =
     (case parseReplyFile e cacheJsonFile of
        Inl err \<Rightarrow> Inl err
      | Inr data \<Rightarrow>
          Inr (this\<lparr>cache := storeEntries (cache this) (iterateIfExists (entries data))\<rparr>))"

fun pushTargets :: "string \<Rightarrow> string list \<Rightarrow> targetRef list \<Rightarrow> string list" where
  "pushTargets replyDir paths [] = paths"
| "pushTargets replyDir paths (target # rest) =
     pushTargets replyDir (paths @ [win32_join [replyDir, target_jsonFile target]]) rest"

definition loadCodemodel :: "env \<Rightarrow> CMakeApi \<Rightarrow> string \<Rightarrow> string \<Rightarrow> error + CMakeApi" where
  "loadCodemodel e this replyDir codemodelJsonFile =
     (case parseReplyFile e codemodelJsonFile of
        Inl err \<Rightarrow> Inl err
      | Inr data \<Rightarrow>
          (case configurations data of
             None \<Rightarrow> Inl (TypeError ''data.configurations[0]'')
           | Some cs \<Rightarrow>
               (let ts = (case cs of [] \<Rightarrow> [] | c # _ \<Rightarrow> iterateIfExists (targets c));
                    ps = pushTargets replyDir (targetFilepaths this) ts
                in case data_paths data of
                     None \<Rightarrow> Inl (TypeError ''data.paths.source'')
                   | Some p \<Rightarrow>
                       Inr (this\<lparr>sourceRoot := paths_source p, targetFilepaths := ps\<rparr>))))"

definition infoOfCompiler :: "compilerDoc \<Rightarrow> compilerInfo" where
  "infoOfCompiler c =
     \<lparr>info_path = compiler_path c, info_version = compiler_version c,
      info_includes = compiler_includeDirectories c\<rparr>"

fun recordToolchains :: "CMakeApi \<Rightarrow> toolchain list \<Rightarrow> CMakeApi" where
  "recordToolchains this [] = this"
| "recordToolchains this (t # rest) =
     (let c = toolchain_compiler t
      in if toolchain_language t = ''C'' \<and> compiler_id c = ''MSVC''
         then recordToolchains (this\<lparr>cCompilerInfo := Some (infoOfCompiler c)\<rparr>) rest
         else if toolchain_language t = ''CXX'' \<and> compiler_id c = ''MSVC''
         then recordToolchains (this\<lparr>cxxCompilerInfo := Some (infoOfCompiler c)\<rparr>) rest
         else recordToolchains this rest)"

definition requireCompiler :: "CMakeApi \<Rightarrow> error + CMakeApi" where
  "requireCompiler this =
     (if cCompilerInfo this = None \<and> cxxCompilerInfo this = None
      then Inl (Error ''Action requires use of MSVC for either/both C or C++.'')
      else Inr this)"

definition loadToolchains :: "env \<Rightarrow> CMakeApi \<Rightarrow> string \<Rightarrow> error + CMakeApi" where
  "loadToolchains e this toolsetJsonFile =
     (case parseReplyFile e toolsetJsonFile of
        Inl err \<Rightarrow> Inl err
      | Inr data \<Rightarrow> requireCompiler (recordToolchains this (iterateIfExists (toolchains data))))"

definition infoFromPath :: "string \<Rightarrow> compilerInfo" where
  "infoFromPath p =
     \<lparr>info_path = p, info_version = extractVersionFromCompilerPath p,
      info_includes = extractIncludesFromCompilerPath p\<rparr>"

text \<open>
  \<^verbatim>\<open>this.cache["CMAKE_C_COMPILER"]\<close> is \<open>undefined\<close> when the cache has no such entry, and
  calling \<^verbatim>\<open>endsWith\<close> on \<open>undefined\<close> raises a TypeError.
\<close>

definition loadToolchainsFromCache :: "CMakeApi \<Rightarrow> error + CMakeApi" where
  "loadToolchainsFromCache this =
     (case cache this ''CMAKE_C_COMPILER'' of
        None \<Rightarrow> Inl (TypeError ''cPath.endsWith'')
      | Some cPath \<Rightarrow>
          (let this1 = (if endsWith cPath ''cl.exe'' \<or> endsWith cPath ''cl''
                        then this\<lparr>cCompilerInfo := Some (infoFromPath cPath)\<rparr> else this)
           in case cache this1 ''CMAKE_CXX_COMPILER'' of
                None \<Rightarrow> Inl (TypeError ''cxxPath.endsWith'')
              | Some cxxPath \<Rightarrow>
                  (let this2 = (if endsWith cxxPath ''cl.exe'' \<or> endsWith cxxPath ''cl''
                                then this1\<lparr>cxxCompilerInfo := Some (infoFromPath cxxPath)\<rparr>
                                else this1)
                   in requireCompiler this2)))"

text \<open>
  The three flags of \<open>loadReplyFiles\<close> and its loop over the responses: each response is
  dispatched on its kind, and a loader that raises ends the loop.
\<close>

record loadFlags =
  cacheLoaded :: bool
  codemodelLoaded :: bool
  toolchainLoaded :: bool

fun loadResponses ::
  "env \<Rightarrow> string \<Rightarrow> loadFlags \<times> CMakeApi \<Rightarrow> response list \<Rightarrow> error + loadFlags \<times> CMakeApi" where
  "loadResponses e replyDir (flags, this) [] = Inr (flags, this)"
| "loadResponses e replyDir (flags, this) (r # rest) =
     (if kind r = ''cache'' then
        (case loadCache e this (win32_join [replyDir, response_jsonFile r]) of
           Inl err \<Rightarrow> Inl err
         | Inr this' \<Rightarrow> loadResponses e replyDir (flags\<lparr>cacheLoaded := True\<rparr>, this') rest)
      else if kind r = ''codemodel'' then
        (case loadCodemodel e this replyDir (win32_join [replyDir, response_jsonFile r]) of
           Inl err \<Rightarrow> Inl err
         | Inr this' \<Rightarrow> loadResponses e replyDir (flags\<lparr>codemodelLoaded := True\<rparr>, this') rest)
      else if kind r = ''toolchains'' then
        (case loadToolchains e this (win32_join [replyDir, response_jsonFile r]) of
           Inl err \<Rightarrow> Inl err
         | Inr this' \<Rightarrow> loadResponses e replyDir (flags\<lparr>toolchainLoaded := True\<rparr>, this') rest)
      else loadResponses e replyDir (flags, this) rest)"

text \<open>The part of \<open>loadReplyFiles\<close> after the version check (lines 302-337).\<close>

definition loadClientResponses :: "env \<Rightarrow> CMakeApi \<Rightarrow> string \<Rightarrow> replyDoc \<Rightarrow> error + CMakeApi" where
  "loadClientResponses e this apiDir indexReply =
     (let replyDir = win32_join [apiDir, ''reply'']
      in case reply indexReply of
           None \<Rightarrow> Inl (TypeError ''indexReply.reply[clientName]'')
         | Some replies \<Rightarrow>
             (case replies clientName of
                None \<Rightarrow> Inl (TypeError ''clientReplies[query.json]'')
              | Some clientReplies \<Rightarrow>
                  (let rs = (case query_json clientReplies of
                               None \<Rightarrow> []
                             | Some q \<Rightarrow> iterateIfExists (responses q))
                   in case loadResponses e replyDir
                        (\<lparr>cacheLoaded = False, codemodelLoaded = False, toolchainLoaded = False\<rparr>,
                         this) rs of
                        Inl err \<Rightarrow> Inl err
                      | Inr (flags, this') \<Rightarrow>
                          if \<not> cacheLoaded flags
                          then Inl (Error ''Failed to load cache response from CMake API'')
                          else if \<not> codemodelLoaded flags
                          then Inl (Error ''Failed to load codemodel response from CMake API'')
                          else if \<not> toolchainLoaded flags
                          then loadToolchainsFromCache this'
                          else Inr this')))"

definition loadReplyFiles :: "env \<Rightarrow> CMakeApi \<Rightarrow> string \<Rightarrow> error + CMakeApi" where
  "loadReplyFiles e this apiDir =
     (case getApiReplyIndex e apiDir of
        Inl err \<Rightarrow> Inl err
      | Inr indexReply \<Rightarrow>
          (case version_string indexReply of
             None \<Rightarrow> Inl (TypeError ''indexReply.version.string'')
           | Some v \<Rightarrow>
               if js_str_lt v ''3.13.7''
               then Inl (Error ''Action requires CMake version >= 3.13.7'')
               else loadClientResponses e this apiDir indexReply))"

section \<open>Compile commands (index.js lines 346-371 and 438-470)\<close>

text \<open>
  The three loops of \<open>getCompileGroupArguments\<close> push onto \<^verbatim>\<open>compileArguments\<close>;
  \<^verbatim>\<open>util.format('/I%s', p)\<close> of a string \<open>p\<close> is \<open>/I\<close> followed by \<open>p\<close>.
\<close>

fun pushFragments :: "string list \<Rightarrow> commandFragment list \<Rightarrow> string list" where
  "pushFragments compileArguments [] = compileArguments"
| "pushFragments compileArguments (command # rest) =
     pushFragments (compileArguments @ [fragment command]) rest"

fun pushIncludes :: "CompilerCommandOptions \<Rightarrow> string list \<Rightarrow> includeEntry list \<Rightarrow> string list" where
  "pushIncludes options compileArguments [] = compileArguments"
| "pushIncludes options compileArguments (incl # rest) =
     (if truthy (ignoreSystemHeaders options) \<and> isSystem incl = Some True
      then pushIncludes options
             (compileArguments @ [escapeArgument (''/external:I'' @ include_path incl)]) rest
      else pushIncludes options
             (compileArguments @ [escapeArgument (''/I'' @ include_path incl)]) rest)"

fun pushDefines :: "string list \<Rightarrow> defineEntry list \<Rightarrow> string list" where
  "pushDefines compileArguments [] = compileArguments"
| "pushDefines compileArguments (d # rest) =
     pushDefines (compileArguments @ [escapeArgument (''/D'' @ define_text d)]) rest"

definition getCompileGroupArguments :: "compileGroup \<Rightarrow> CompilerCommandOptions \<Rightarrow> string" where
  "getCompileGroupArguments grp options =
     (let a1 = pushFragments [] (iterateIfExists (compileCommandFragments grp));
          a2 = pushIncludes options a1 (iterateIfExists (group_includes grp));
          a3 = pushDefines a2 (iterateIfExists (group_defines grp))
      in array_join '' '' a3)"

text \<open>
  A generator is modelled by what it yields, in order, and the error that ended it if one
  did. \<open>thenYield\<close> runs a second piece of a generator after a first one.
\<close>

type_synonym yielded = "compileCommand list \<times> error option"

definition thenYield :: "yielded \<Rightarrow> yielded \<Rightarrow> yielded" where
  "thenYield first second =
     (case snd first of
        Some err \<Rightarrow> first
      | None \<Rightarrow> (fst first @ fst second, snd second))"

text \<open>
  \<^verbatim>\<open>path.join(this.sourceRoot, targetData.sources[sourceIndex].path)\<close>: reading \<open>path\<close> of an
  index outside \<open>sources\<close> raises, and so does \<open>path.join\<close> when \<open>sourceRoot\<close> is undefined.
\<close>

definition sourceOf :: "CMakeApi \<Rightarrow> replyDoc \<Rightarrow> nat \<Rightarrow> error + string" where
  "sourceOf this targetData sourceIndex =
     (case sources targetData of
        None \<Rightarrow> Inl (TypeError ''targetData.sources[sourceIndex]'')
      | Some srcs \<Rightarrow>
          if sourceIndex < length srcs then
            (case sourceRoot this of
               None \<Rightarrow> Inl (TypeError ''path.join(this.sourceRoot)'')
             | Some root \<Rightarrow> Inr (win32_join [root, source_path (srcs ! sourceIndex)]))
          else Inl (TypeError ''targetData.sources[sourceIndex].path''))"

fun yieldSources ::
  "CMakeApi \<Rightarrow> replyDoc \<Rightarrow> string \<Rightarrow> compilerInfo \<Rightarrow> nat list \<Rightarrow> yielded" where
  "yieldSources this targetData a compilerInfo [] = ([], None)"
| "yieldSources this targetData a compilerInfo (sourceIndex # rest) =
     (case sourceOf this targetData sourceIndex of
        Inl err \<Rightarrow> ([], Some err)
      | Inr src \<Rightarrow>
          thenYield ([\<lparr>source = src, args = a, compiler = compilerInfo\<rparr>], None)
            (yieldSources this targetData a compilerInfo rest))"

text \<open>The \<^verbatim>\<open>switch (group.language)\<close>: \<open>None\<close> is \<open>undefined\<close>.\<close>

definition selectCompiler :: "CMakeApi \<Rightarrow> compileGroup \<Rightarrow> compilerInfo option" where
  "selectCompiler this grp =
     (if language grp = ''C'' then cCompilerInfo this
      else if language grp = ''CXX'' then cxxCompilerInfo this
      else None)"

fun yieldGroups ::
  "CMakeApi \<Rightarrow> replyDoc \<Rightarrow> CompilerCommandOptions \<Rightarrow> compileGroup list \<Rightarrow> yielded" where
  "yieldGroups this targetData options [] = ([], None)"
| "yieldGroups this targetData options (grp # rest) =
     (case selectCompiler this grp of
        None \<Rightarrow> yieldGroups this targetData options rest
      | Some compilerInfo \<Rightarrow>
          thenYield
            (yieldSources this targetData (getCompileGroupArguments grp options) compilerInfo
               (iterateIfExists (sourceIndexes grp)))
            (yieldGroups this targetData options rest))"

fun yieldTargets :: "env \<Rightarrow> CMakeApi \<Rightarrow> CompilerCommandOptions \<Rightarrow> string list \<Rightarrow> yielded" where
  "yieldTargets e this options [] = ([], None)"
| "yieldTargets e this options (target # rest) =
     (case parseReplyFile e target of
        Inl err \<Rightarrow> ([], Some err)
      | Inr targetData \<Rightarrow>
          thenYield (yieldGroups this targetData options (iterateIfExists (compileGroups targetData)))
            (yieldTargets e this options rest))"

definition compileCommandsIterator :: "env \<Rightarrow> CMakeApi \<Rightarrow> CompilerCommandOptions \<Rightarrow> yielded" where
  "compileCommandsIterator e this options =
     (if \<not> loaded this
      then ([], Some (Error ''CMakeApi: getCompileCommands called before API is loaded''))
      else yieldTargets e this options (targetFilepaths this))"

section \<open>Loading (\<open>loadApi\<close>, index.js lines 387-428)\<close>

text \<open>
  \<^verbatim>\<open>child_process.spawn(command, args, options)\<close> takes the arguments of the command as an
  array. \<open>loadApi\<close> passes the string \<open>buildRoot\<close> in that place (and a function as options),
  and Node checks its arguments before it starts anything: an empty command and a string in
  the place of the array each raise a TypeError. The second parameter has the type of what
  the code passes, so the call raises whatever the strings are.
\<close>

definition child_process_spawn :: "string \<Rightarrow> string \<Rightarrow> error option" where
  "child_process_spawn file argv =
     (if file = [] then Some (TypeError ''child_process.spawn: file is empty'')
      else Some (TypeError ''child_process.spawn: args is a string''))"

text \<open>
  \<open>loadApi\<close> returns what it asked of the machine, in order, and either the error it raised
  or the loaded object.
\<close>

definition loadApi :: "env \<Rightarrow> CMakeApi \<Rightarrow> string \<Rightarrow> effect list \<times> (error + CMakeApi)" where
  "loadApi e this buildRoot =
     (if buildRoot = [] then
        ([], Inl (Error (''CMakeApi: '' @ [CHR 0x27] @ ''buildRoot'' @ [CHR 0x27] @
                         '' can not be null or empty.'')))
      else if \<not> existsSync e buildRoot then
        ([], Inl (Error (''CMake build root not found at: '' @ buildRoot)))
      else
        (case readdirSync e buildRoot of
           Inl err \<Rightarrow> ([], Inl err)
         | Inr names \<Rightarrow>
             if length names = 0 then
               ([], Inl (Error
                  ''CMake build root must be non-empty as project should already be configured''))
             else
               (case findExecutableOnPath e ''cmake.exe'' of
                  Inl err \<Rightarrow> ([], Inl err)
                | Inr cmakePath \<Rightarrow>
                    (let apiDir = win32_join [buildRoot, ''.cmake/api/v1'']
                     in case getApiReplyIndex e apiDir of
                          Inl err \<Rightarrow> ([], Inl err)
                        | Inr indexQuery \<Rightarrow>
                            (case createApiQuery e apiDir of
                               (effs, Some err) \<Rightarrow> (effs, Inl err)
                             | (effs, None) \<Rightarrow>
                                 (case child_process_spawn cmakePath buildRoot of
                                    Some err \<Rightarrow> (effs, Inl err)
                                  | None \<Rightarrow>
                                      (let effs' = effs @ [Spawn cmakePath buildRoot]
                                       in case version_string indexQuery of
                                            None \<Rightarrow>
                                              (effs', Inl (TypeError ''indexQuery.version.string''))
                                          | Some cmakeVersion \<Rightarrow>
                                              if js_str_lt cmakeVersion ''3.13.7'' then
                                                (effs', Inl (Error
                                                   ''Action requires CMake version >= 3.13.7''))
                                              else if \<not> existsSync e apiDir then
                                                (effs', Inl (Error
                                                   ''.cmake/api/v1 missing, run CMake config before using action.''))
                                              else
                                                (case loadReplyFiles e this apiDir of
                                                   Inl err \<Rightarrow> (effs', Inl err)
                                                 | Inr this' \<Rightarrow>
                                                     (effs', Inr (this'\<lparr>loaded := True\<rparr>))))))))))"

section \<open>An example build tree\<close>

text \<open>
  A configured build in \<open>C:\build\<close> whose reply directory holds two index files, a cache,
  a code model with one target, a toolchains reply and the target's file; the process runs
  in the reply directory and finds \<open>cmake.exe\<close> on the search path. The version the index
  reports and the responses it lists are parameters. The target has a C++ group with two
  sources and a Fortran group with one.
\<close>

definition winpath :: "string list \<Rightarrow> string" where
  "winpath parts = array_join [backslash] parts"

definition exampleBuildRoot :: string where
  "exampleBuildRoot = winpath [''C:'', ''build'']"

definition exampleApiDir :: string where
  "exampleApiDir = winpath [''C:'', ''build'', ''.cmake'', ''api'', ''v1'']"

definition exampleReplyDir :: string where
  "exampleReplyDir = winpath [''C:'', ''build'', ''.cmake'', ''api'', ''v1'', ''reply'']"

definition emptyDoc :: replyDoc where
  "emptyDoc = \<lparr>version_string = None, reply = None, entries = None, configurations = None,
     data_paths = None, toolchains = None, sources = None, compileGroups = None\<rparr>"

definition exampleClPath :: string where
  "exampleClPath = ''C:/VS/VC/Tools/MSVC/14.29.30133/bin/HostX64/x64/cl.exe''"

definition exampleIndex :: "string \<Rightarrow> response list \<Rightarrow> replyDoc" where
  "exampleIndex v rs = emptyDoc\<lparr>version_string := Some v,
     reply := Some [clientName \<mapsto> \<lparr>query_json = Some \<lparr>responses = Some rs\<rparr>\<rparr>]\<rparr>"

definition exampleCache :: replyDoc where
  "exampleCache = emptyDoc\<lparr>entries := Some
     [\<lparr>entry_name = ''CMAKE_C_COMPILER'', entry_value = exampleClPath\<rparr>,
      \<lparr>entry_name = ''CMAKE_CXX_COMPILER'', entry_value = exampleClPath\<rparr>]\<rparr>"

text \<open>The cache of a project that enables C++ only: it has no entry for a C compiler.\<close>

definition exampleCacheCxxOnly :: replyDoc where
  "exampleCacheCxxOnly = emptyDoc\<lparr>entries := Some
     [\<lparr>entry_name = ''CMAKE_CXX_COMPILER'', entry_value = exampleClPath\<rparr>]\<rparr>"

definition exampleCodemodel :: replyDoc where
  "exampleCodemodel = emptyDoc\<lparr>
     configurations := Some [\<lparr>targets = Some [\<lparr>target_jsonFile = ''target-app.json''\<rparr>]\<rparr>],
     data_paths := Some \<lparr>paths_source = Some ''C:/src''\<rparr>\<rparr>"

definition exampleToolchains :: replyDoc where
  "exampleToolchains = emptyDoc\<lparr>toolchains := Some
     [\<lparr>toolchain_language = ''CXX'',
       toolchain_compiler = \<lparr>compiler_id = ''MSVC'', compiler_path = exampleClPath,
         compiler_version = ''19.29.30133'', compiler_includeDirectories = []\<rparr>\<rparr>]\<rparr>"

text \<open>The toolchains reply of a build with another compiler family.\<close>

definition exampleToolchainsGnu :: replyDoc where
  "exampleToolchainsGnu = emptyDoc\<lparr>toolchains := Some
     [\<lparr>toolchain_language = ''CXX'',
       toolchain_compiler = \<lparr>compiler_id = ''GNU'', compiler_path = ''C:/mingw/bin/g++.exe'',
         compiler_version = ''11.2.0'', compiler_includeDirectories = []\<rparr>\<rparr>]\<rparr>"

definition exampleGroup :: compileGroup where
  "exampleGroup = \<lparr>language = ''CXX'',
     compileCommandFragments = Some [\<lparr>fragment = ''-O2''\<rparr>],
     group_includes = Some [\<lparr>include_path = ''C:'' @ [backslash] @ ''inc'', isSystem = Some False\<rparr>],
     group_defines = Some [\<lparr>define_text = ''FOO=1''\<rparr>],
     sourceIndexes = Some [0, 1]\<rparr>"

definition fortranGroup :: compileGroup where
  "fortranGroup = \<lparr>language = ''Fortran'',
     compileCommandFragments = None, group_includes = None, group_defines = None,
     sourceIndexes = Some [2]\<rparr>"

definition exampleTarget :: replyDoc where
  "exampleTarget = emptyDoc\<lparr>
     sources := Some [\<lparr>source_path = ''main.cpp''\<rparr>, \<lparr>source_path = ''util.cpp''\<rparr>,
                      \<lparr>source_path = ''solver.f90''\<rparr>],
     compileGroups := Some [exampleGroup, fortranGroup]\<rparr>"

definition exampleFiles :: "string \<Rightarrow> response list \<Rightarrow> (string \<times> replyDoc) list" where
  "exampleFiles v rs =
     [(''index-2021-06-01T00-00-00-0000.json'', exampleIndex v rs),
      (winpath [exampleReplyDir, ''cache-v2.json''], exampleCache),
      (winpath [exampleReplyDir, ''cache-cxx-only.json''], exampleCacheCxxOnly),
      (winpath [exampleReplyDir, ''codemodel-v2.json''], exampleCodemodel),
      (winpath [exampleReplyDir, ''toolchains-v1.json''], exampleToolchains),
      (winpath [exampleReplyDir, ''toolchains-gnu.json''], exampleToolchainsGnu),
      (winpath [exampleReplyDir, ''target-app.json''], exampleTarget)]"

definition exampleEnv :: "string \<Rightarrow> response list \<Rightarrow> env" where
  "exampleEnv v rs =
     \<lparr>cwd = exampleReplyDir,
      envPATH = winpath [''C:'', ''cmake'', ''bin''],
      existsSync = (\<lambda>p. p \<in> set ([exampleBuildRoot, exampleApiDir, exampleReplyDir,
                         winpath [''C:'', ''cmake'', ''bin'', ''cmake.exe'']] @
                         map fst (exampleFiles v rs))),
      readdirSync = (\<lambda>p. if p = exampleBuildRoot then Inr [''.cmake'', ''CMakeCache.txt'']
                       else if p = exampleReplyDir
                       then Inr [''index-2021-01-01T00-00-00-0000.json'',
                                 ''index-2021-06-01T00-00-00-0000.json'',
                                 ''cache-v2.json'', ''codemodel-v2.json'',
                                 ''toolchains-v1.json'', ''target-app.json'']
                       else Inl (Error ''ENOENT'')),
      readJson = (\<lambda>p. case map_of (exampleFiles v rs) p of
                         Some d \<Rightarrow> Inr d | None \<Rightarrow> Inl (Error ''ENOENT'')),
      mkdirSync = (\<lambda>p. None)\<rparr>"

definition cacheResponse :: response where
  "cacheResponse = \<lparr>kind = ''cache'', response_jsonFile = ''cache-v2.json''\<rparr>"

definition cacheCxxOnlyResponse :: response where
  "cacheCxxOnlyResponse = \<lparr>kind = ''cache'', response_jsonFile = ''cache-cxx-only.json''\<rparr>"

definition codemodelResponse :: response where
  "codemodelResponse = \<lparr>kind = ''codemodel'', response_jsonFile = ''codemodel-v2.json''\<rparr>"

definition toolchainsResponse :: response where
  "toolchainsResponse = \<lparr>kind = ''toolchains'', response_jsonFile = ''toolchains-v1.json''\<rparr>"

definition toolchainsGnuResponse :: response where
  "toolchainsGnuResponse = \<lparr>kind = ''toolchains'', response_jsonFile = ''toolchains-gnu.json''\<rparr>"

definition allResponses :: "response list" where
  "allResponses = [cacheResponse, codemodelResponse, toolchainsResponse]"

text \<open>
  The object that holds what the three responses of the example tree say, marked loaded.
\<close>

definition exampleLoaded :: CMakeApi where
  "exampleLoaded =
     \<lparr>loaded = True, cCompilerInfo = None,
      cxxCompilerInfo = Some \<lparr>info_path = exampleClPath, info_version = ''19.29.30133'',
                               info_includes = []\<rparr>,
      sourceRoot = Some ''C:/src'',
      cache = [''CMAKE_C_COMPILER'' \<mapsto> exampleClPath, ''CMAKE_CXX_COMPILER'' \<mapsto> exampleClPath],
      targetFilepaths = [winpath [exampleReplyDir, ''target-app.json'']]\<rparr>"

section \<open>Notions used to state the properties\<close>

text \<open>The lexicographic order of strings by character code, from the library's \<open>lexord\<close>.\<close>

definition lexLess :: "string \<Rightarrow> string \<Rightarrow> bool" where
  "lexLess a b \<longleftrightarrow> (a, b) \<in> lexord {(x, y). (of_char x :: nat) < of_char y}"

text \<open>
  The response kinds an index lists for this client, the flags before the loop, and the
  responses the index lists (\<open>None\<close> when reading them raises).
\<close>

definition responseKinds :: "response list \<Rightarrow> string set" where
  "responseKinds rs = kind ` set rs"

definition noFlags :: loadFlags where
  "noFlags = \<lparr>cacheLoaded = False, codemodelLoaded = False, toolchainLoaded = False\<rparr>"

definition listedResponses :: "replyDoc \<Rightarrow> response list option" where
  "listedResponses indexReply =
     (case reply indexReply of
        None \<Rightarrow> None
      | Some replies \<Rightarrow>
          (case replies clientName of
             None \<Rightarrow> None
           | Some clientReplies \<Rightarrow>
               (case query_json clientReplies of
                  None \<Rightarrow> Some []
                | Some q \<Rightarrow> Some (iterateIfExists (responses q)))))"

text \<open>
  The descriptors as the specification words them: the argument string of a group is its
  fragments, then one quoted include flag per include, then one quoted define flag per
  define, joined by single blanks; a group whose language has a compiler gives one
  descriptor per source index, in order, and any other group gives none; a target gives the
  descriptors of its groups in order.
\<close>

definition includeFlag :: "CompilerCommandOptions \<Rightarrow> includeEntry \<Rightarrow> string" where
  "includeFlag options incl =
     escapeArgument
       ((if truthy (ignoreSystemHeaders options) \<and> isSystem incl = Some True
         then ''/external:I'' else ''/I'') @ include_path incl)"

definition defineFlag :: "defineEntry \<Rightarrow> string" where
  "defineFlag d = escapeArgument (''/D'' @ define_text d)"

definition groupArguments :: "compileGroup \<Rightarrow> CompilerCommandOptions \<Rightarrow> string" where
  "groupArguments grp options =
     array_join '' ''
       (map fragment (iterateIfExists (compileCommandFragments grp)) @
        map (includeFlag options) (iterateIfExists (group_includes grp)) @
        map defineFlag (iterateIfExists (group_defines grp)))"

definition groupDescriptors ::
  "CMakeApi \<Rightarrow> replyDoc \<Rightarrow> CompilerCommandOptions \<Rightarrow> compileGroup \<Rightarrow> compileCommand list" where
  "groupDescriptors this targetData options grp =
     (case selectCompiler this grp of
        None \<Rightarrow> []
      | Some compilerInfo \<Rightarrow>
          map (\<lambda>sourceIndex.
                 \<lparr>source = win32_join [the (sourceRoot this),
                             source_path (the (sources targetData) ! sourceIndex)],
                  args = groupArguments grp options,
                  compiler = compilerInfo\<rparr>)
              (iterateIfExists (sourceIndexes grp)))"

definition targetDescriptors ::
  "env \<Rightarrow> CMakeApi \<Rightarrow> CompilerCommandOptions \<Rightarrow> string \<Rightarrow> compileCommand list" where
  "targetDescriptors e this options target =
     (case parseReplyFile e target of
        Inl err \<Rightarrow> []
      | Inr targetData \<Rightarrow>
          concat (map (groupDescriptors this targetData options)
                      (iterateIfExists (compileGroups targetData))))"

text \<open>
  A target file is valid when it parses and every source index of a group that has a compiler
  is an index of the target's sources.
\<close>

definition validGroup :: "CMakeApi \<Rightarrow> replyDoc \<Rightarrow> compileGroup \<Rightarrow> bool" where
  "validGroup this targetData grp \<longleftrightarrow>
     (selectCompiler this grp = None \<or>
      (\<forall>i \<in> set (iterateIfExists (sourceIndexes grp)).
         case sources targetData of None \<Rightarrow> False | Some srcs \<Rightarrow> i < length srcs))"

definition validTarget :: "env \<Rightarrow> CMakeApi \<Rightarrow> string \<Rightarrow> bool" where
  "validTarget e this target \<longleftrightarrow>
     (case parseReplyFile e target of
        Inl err \<Rightarrow> False
      | Inr targetData \<Rightarrow>
          (\<forall>grp \<in> set (iterateIfExists (compileGroups targetData)). validGroup this targetData grp))"

text \<open>
  The environment in which the file \<open>target\<close> holds the document \<open>targetData\<close> with the
  compile groups \<open>grps\<close>.
\<close>

definition withoutGroup :: "env \<Rightarrow> string \<Rightarrow> replyDoc \<Rightarrow> compileGroup list \<Rightarrow> env" where
  "withoutGroup e target targetData grps =
     e\<lparr>readJson := (readJson e)(target := Inr (targetData\<lparr>compileGroups := Some grps\<rparr>))\<rparr>"

definition exampleOptions :: CompilerCommandOptions where
  "exampleOptions = \<lparr>ignoreSystemHeaders = JsString [], usePrecompiledHeaders = False\<rparr>"

text \<open>
  Paths on a drive, by their segments: \<open>drivePath d sep segs\<close> is the drive letter, a colon,
  and each segment after a separator. A plain segment is a name: not empty, not \<open>.\<close> or
  \<open>..\<close>, without a separator. Going \<open>k\<close> levels up from a path drops its last \<open>k\<close>
  segments (one level up from a file is the directory that holds it).
\<close>

definition plainSegment :: "string \<Rightarrow> bool" where
  "plainSegment s \<longleftrightarrow>
     s \<noteq> [] \<and> s \<noteq> ''.'' \<and> s \<noteq> ''..'' \<and> (\<forall>c \<in> set s. \<not> isPathSeparator c)"





section \<open>Properties of the quoting\<close>

lemma trailingBackslashes_run:
  "i \<le> length arg \<Longrightarrow>
   trailingBackslashes arg i = i + length (takeWhile (\<lambda>c. c = backslash) (drop i (rev arg)))"
proof (induction arg i rule: trailingBackslashes.induct)
  case (1 arg i)
  show ?case
  proof (cases "i < length arg")
    case True
    then have nth: "rev arg ! i = arg ! (length arg - 1 - i)"
      by (simp add: rev_nth)
    from True have dr: "drop i (rev arg) = rev arg ! i # drop (Suc i) (rev arg)"
      by (simp add: Cons_nth_drop_Suc)
    show ?thesis
    proof (cases "arg ! (length arg - 1 - i) = backslash")
      case b: True
      with True "1.IH" have "trailingBackslashes arg (i + 1) =
          i + 1 + length (takeWhile (\<lambda>c. c = backslash) (drop (i + 1) (rev arg)))"
        by simp
      with True b nth dr show ?thesis
        by (subst trailingBackslashes.simps) simp
    next
      case False
      with True nth dr show ?thesis
        by (subst trailingBackslashes.simps) simp
    qed
  next
    case False
    with "1.prems" have "i = length arg" by simp
    then show ?thesis
      by (subst trailingBackslashes.simps) simp
  qed
qed

lemma trailingBackslashes_0: "trailingBackslashes arg 0 = trailingRun arg"
  using trailingBackslashes_run [of 0 arg] by (simp add: trailingRun_def)

lemma escapeArgument_eq:
  "escapeArgument arg = dquote # arg @ replicate (trailingRun arg) backslash @ [dquote]"
  by (simp add: escapeArgument_def trailingBackslashes_0 Let_def)


lemma unquoteArg_replicate:
  "unquoteArg q k (replicate m backslash @ rest) = unquoteArg q (k + m) rest"
  by (induction m arbitrary: k) simp_all

lemma unquoteArg_body:
  "dquote \<notin> set t \<Longrightarrow> (t \<noteq> [] \<and> last t \<noteq> backslash) \<or> (t = [] \<and> k = 0) \<Longrightarrow>
   unquoteArg True k (t @ rest) = replicate k backslash @ t @ unquoteArg True 0 rest"
proof (induction t arbitrary: k)
  case Nil
  then show ?case by simp
next
  case (Cons c cs)
  show ?case
  proof (cases "c = backslash")
    case True
    with Cons.prems have cs: "cs \<noteq> []" "last cs \<noteq> backslash" "dquote \<notin> set cs"
      by (auto split: if_splits)
    from Cons.IH [of "Suc k"] cs True show ?thesis
      by (simp add: replicate_append_same)
  next
    case False
    from Cons.prems have nq: "c \<noteq> dquote" "dquote \<notin> set cs" by auto
    from Cons.prems have "(cs \<noteq> [] \<and> last cs \<noteq> backslash) \<or> (cs = [] \<and> (0::nat) = 0)"
      by (auto split: if_splits)
    from Cons.IH [OF nq(2) this] False nq show ?thesis by simp
  qed
qed

lemma trailing_split:
  "\<exists>body. s = body @ replicate (trailingRun s) backslash \<and> (body = [] \<or> last body \<noteq> backslash)"
proof -
  let ?P = "\<lambda>c. c = backslash"
  let ?body = "rev (dropWhile ?P (rev s))"
  have "\<forall>y\<in>set (takeWhile ?P (rev s)). y = backslash"
    by (auto dest: set_takeWhileD)
  then have tw: "takeWhile ?P (rev s) = replicate (trailingRun s) backslash"
    unfolding trailingRun_def by (rule replicate_length_same [symmetric])
  have "rev (rev s) = rev (takeWhile ?P (rev s) @ dropWhile ?P (rev s))"
    by (simp only: takeWhile_dropWhile_id)
  then have 1: "s = ?body @ replicate (trailingRun s) backslash"
    by (simp only: rev_rev_ident rev_append tw rev_replicate)
  have 2: "?body = [] \<or> last ?body \<noteq> backslash"
  proof (cases "dropWhile ?P (rev s)")
    case Nil then show ?thesis by simp
  next
    case (Cons a as)
    then have "dropWhile ?P (rev s) \<noteq> []" by simp
    then have "\<not> ?P (hd (dropWhile ?P (rev s)))" by (rule hd_dropWhile)
    with Cons show ?thesis by (simp add: last_rev)
  qed
  from 1 2 show ?thesis by blast
qed

lemma takeWhile_replicate_same:
  "takeWhile (\<lambda>c. c = x) (replicate m x @ ys) = replicate m x @ takeWhile (\<lambda>c. c = x) ys"
  by (induction m) simp_all

lemma trailingRun_append:
  "body = [] \<or> last body \<noteq> backslash \<Longrightarrow> trailingRun (body @ replicate m backslash) = m"
  unfolding trailingRun_def
  by (cases body rule: rev_cases) (simp_all add: takeWhile_replicate_same)



lemma dquote_neq_backslash [simp]: "dquote \<noteq> backslash" "backslash \<noteq> dquote"
  by (simp_all add: dquote_def backslash_def)

lemma unquote_dquote: "unquote (dquote # xs) = unquoteArg True 0 xs"
  by (simp add: unquote_def)

lemma unquoteArg_closing: "unquoteArg True (n + n) [dquote] = replicate n backslash"
  by simp

lemma unquote_quoted:
  assumes "dquote \<notin> set s"
  shows "unquote (dquote # s @ replicate (trailingRun s) backslash @ [dquote]) = s"
proof -
  obtain body where s: "s = body @ replicate (trailingRun s) backslash"
    and b: "body = [] \<or> last body \<noteq> backslash"
    using trailing_split by blast
  let ?n = "trailingRun s"
  from assms s have nq: "dquote \<notin> set body" by (metis Un_iff set_append)
  have c: "(body \<noteq> [] \<and> last body \<noteq> backslash) \<or> (body = [] \<and> (0::nat) = 0)" using b by auto
  have "s @ replicate ?n backslash @ [dquote]
      = body @ (replicate (?n + ?n) backslash @ [dquote])"
    using s by (metis append.assoc replicate_add)
  then have "unquote (dquote # s @ replicate ?n backslash @ [dquote])
      = unquoteArg True 0 (body @ (replicate (?n + ?n) backslash @ [dquote]))"
    by (simp only: unquote_dquote)
  also have "\<dots> = body @ unquoteArg True 0 (replicate (?n + ?n) backslash @ [dquote])"
    using unquoteArg_body [OF nq c] by simp
  also have "\<dots> = body @ replicate ?n backslash"
    by (simp only: unquoteArg_replicate unquoteArg_closing add_0)
  finally show ?thesis using s by simp
qed



lemma trailingRun_nil_or_last:
  "s = [] \<or> last s \<noteq> backslash \<Longrightarrow> trailingRun s = 0"
  using trailingRun_append [of s 0] by simp

lemma trailingRun_quoted_body:
  "trailingRun (dquote # s @ replicate (trailingRun s) backslash) = 2 * trailingRun s"
proof -
  obtain body where s: "s = body @ replicate (trailingRun s) backslash"
    and b: "body = [] \<or> last body \<noteq> backslash"
    using trailing_split by blast
  let ?n = "trailingRun s"
  have "dquote # s @ replicate ?n backslash = (dquote # body) @ replicate (?n + ?n) backslash"
    using s by (metis append.assoc append_Cons replicate_add)
  moreover have "dquote # body = [] \<or> last (dquote # body) \<noteq> backslash"
    using b by auto
  ultimately show ?thesis
    using trailingRun_append [of "dquote # body" "?n + ?n"] by simp
qed

text \<open>
  Claim C2, as the code has it. For every token, \<open>escapeArgument\<close> appends as many
  backslashes as the token's trailing run of backslashes is long and wraps the result in double
  quotes; the closing quote follows an even number of backslashes (twice the run), so it is
  not escaped. For every token that contains no double quote, unquoting the quoted form gives
  the token back, and with it a trailing run of the same length.
\<close>

theorem escapeArgument_doubles_trailing_run:
  "escapeArgument s = [dquote] @ s @ replicate (trailingRun s) backslash @ [dquote] \<and>
   last (escapeArgument s) = dquote \<and>
   trailingRun (butlast (escapeArgument s)) = 2 * trailingRun s \<and>
   (dquote \<notin> set s \<longrightarrow>
      unquote (escapeArgument s) = s \<and>
      trailingRun (unquote (escapeArgument s)) = trailingRun s)"
proof -
  have e: "escapeArgument s = dquote # s @ replicate (trailingRun s) backslash @ [dquote]"
    by (rule escapeArgument_eq)
  have bl: "butlast (escapeArgument s) = dquote # s @ replicate (trailingRun s) backslash"
    by (simp add: e butlast_append)
  have "trailingRun (butlast (escapeArgument s)) = 2 * trailingRun s"
    by (simp only: bl trailingRun_quoted_body)
  moreover have "dquote \<notin> set s \<longrightarrow> unquote (escapeArgument s) = s"
    using unquote_quoted [of s] by (simp add: e)
  ultimately show ?thesis
    by (simp add: e)
qed

text \<open>
  The theorem at the token \<open>C:\foo\\\<close> (two trailing backslashes), which has no double quote:
  the quoted form ends in four backslashes and the quote, and unquoting gives the token back.
\<close>

theorem escapeArgument_doubles_trailing_run_witness:
  "dquote \<notin> set (''C:'' @ [backslash] @ ''foo'' @ [backslash, backslash]) \<and>
   escapeArgument (''C:'' @ [backslash] @ ''foo'' @ [backslash, backslash]) =
     [dquote] @ ''C:'' @ [backslash] @ ''foo'' @ replicate 4 backslash @ [dquote] \<and>
   unquote (escapeArgument (''C:'' @ [backslash] @ ''foo'' @ [backslash, backslash])) =
     ''C:'' @ [backslash] @ ''foo'' @ [backslash, backslash]"
proof -
  let ?s = "''C:'' @ [backslash] @ ''foo'' @ [backslash, backslash]"
  have nq: "dquote \<notin> set ?s"
    by (simp add: dquote_def backslash_def)
  have run: "trailingRun ?s = 2"
    by (simp add: trailingRun_def backslash_def)
  note t = escapeArgument_doubles_trailing_run [of ?s]
  from t have "escapeArgument ?s = [dquote] @ ?s @ replicate (trailingRun ?s) backslash @ [dquote]"
    by (rule conjunct1)
  then have e: "escapeArgument ?s =
      [dquote] @ ''C:'' @ [backslash] @ ''foo'' @ replicate 4 backslash @ [dquote]"
    using run by (simp add: numeral_eq_Suc)
  from t nq have u: "unquote (escapeArgument ?s) = ?s"
    by blast
  from nq e u show ?thesis
    by (intro conjI)
qed

text \<open>
  The claim as stated, for every token, fails where a double quote inside the token follows
  backslashes: the token \<open>\\"\\<close> (two backslashes, a quote, one backslash) has a trailing run
  of one, its quoted form is \<open>"\\"\\"\<close>, and unquoting that gives two backslashes.
\<close>

theorem escapeArgument_roundtrip_counterexample:
  "trailingRun (unquote (escapeArgument [backslash, backslash, dquote, backslash])) = 2 \<and>
   trailingRun [backslash, backslash, dquote, backslash] = 1"
proof -
  have run: "trailingRun [backslash, backslash, dquote, backslash] = 1"
    by (simp add: trailingRun_def)
  have "unquote (escapeArgument [backslash, backslash, dquote, backslash]) =
          [backslash, backslash]"
    by (simp add: escapeArgument_eq run unquote_def)
  then show ?thesis
    using run by (simp add: trailingRun_def)
qed

text \<open>
  Claim C10. A token that is empty or whose last character is not a backslash is returned
  between one leading and one trailing double quote, unchanged: no character of it is altered
  or escaped, a double quote inside it included.
\<close>

theorem escapeArgument_plain_token:
  "s = [] \<or> last s \<noteq> backslash \<Longrightarrow> escapeArgument s = [dquote] @ s @ [dquote]"
  by (simp add: escapeArgument_eq trailingRun_nil_or_last)

text \<open>The theorem at the token \<open>a"b c\<close>, which has a double quote and a blank inside.\<close>

theorem escapeArgument_plain_token_witness:
  "last (''a'' @ [dquote] @ ''b c'') \<noteq> backslash \<and>
   escapeArgument (''a'' @ [dquote] @ ''b c'') = [dquote] @ ''a'' @ [dquote] @ ''b c'' @ [dquote]"
proof -
  have l: "last (''a'' @ [dquote] @ ''b c'') \<noteq> backslash"
    by (simp add: backslash_def)
  from escapeArgument_plain_token [of "''a'' @ [dquote] @ ''b c''"] l show ?thesis
    by simp
qed

section \<open>The version gate\<close>

lemma js_str_lt_lexLess: "js_str_lt a b = lexLess a b"
  unfolding lexLess_def
  by (induction a b rule: js_str_lt.induct) auto

section \<open>The response loop\<close>

lemma loadResponses_flags:
  "loadResponses e replyDir (flags, this) rs = Inr (flags', this') \<Longrightarrow>
   (cacheLoaded flags' \<longleftrightarrow> cacheLoaded flags \<or> ''cache'' \<in> responseKinds rs) \<and>
   (codemodelLoaded flags' \<longleftrightarrow> codemodelLoaded flags \<or> ''codemodel'' \<in> responseKinds rs) \<and>
   (toolchainLoaded flags' \<longleftrightarrow> toolchainLoaded flags \<or> ''toolchains'' \<in> responseKinds rs)"
proof (induction rs arbitrary: flags this)
  case Nil
  then show ?case by (simp add: responseKinds_def)
next
  case (Cons r rs)
  show ?case
  proof (cases "kind r = ''cache''")
    case True
    with Cons.prems obtain t where
      "loadResponses e replyDir (flags\<lparr>cacheLoaded := True\<rparr>, t) rs = Inr (flags', this')"
      by (auto split: sum.splits)
    from Cons.IH [OF this] True show ?thesis by (auto simp: responseKinds_def)
  next
    case nc: False
    show ?thesis
    proof (cases "kind r = ''codemodel''")
      case True
      with nc Cons.prems obtain t where
        "loadResponses e replyDir (flags\<lparr>codemodelLoaded := True\<rparr>, t) rs = Inr (flags', this')"
        by (auto split: sum.splits)
      from Cons.IH [OF this] True show ?thesis by (auto simp: responseKinds_def)
    next
      case nm: False
      show ?thesis
      proof (cases "kind r = ''toolchains''")
        case True
        with nc nm Cons.prems obtain t where
          "loadResponses e replyDir (flags\<lparr>toolchainLoaded := True\<rparr>, t) rs = Inr (flags', this')"
          by (auto split: sum.splits)
        from Cons.IH [OF this] True show ?thesis by (auto simp: responseKinds_def)
      next
        case False
        with nc nm Cons.prems have
          "loadResponses e replyDir (flags, this) rs = Inr (flags', this')"
          by simp
        from Cons.IH [OF this] nc nm False show ?thesis by (auto simp: responseKinds_def)
      qed
    qed
  qed
qed

lemma loadClientResponses_listed:
  assumes "listedResponses indexReply = Some rs"
  shows "loadClientResponses e this apiDir indexReply =
     (case loadResponses e (win32_join [apiDir, ''reply'']) (noFlags, this) rs of
        Inl err \<Rightarrow> Inl err
      | Inr (flags, this') \<Rightarrow>
          if ''cache'' \<notin> responseKinds rs
          then Inl (Error ''Failed to load cache response from CMake API'')
          else if ''codemodel'' \<notin> responseKinds rs
          then Inl (Error ''Failed to load codemodel response from CMake API'')
          else if ''toolchains'' \<notin> responseKinds rs
          then loadToolchainsFromCache this'
          else Inr this')"
proof -
  from assms obtain replies cr where r: "reply indexReply = Some replies"
    and c: "replies clientName = Some cr"
    and rs: "rs = (case query_json cr of None \<Rightarrow> [] | Some q \<Rightarrow> iterateIfExists (responses q))"
    by (auto simp: listedResponses_def split: option.splits)
  show ?thesis
  proof (cases "loadResponses e (win32_join [apiDir, ''reply'']) (noFlags, this) rs")
    case (Inl err)
    with r c rs show ?thesis
      by (simp add: loadClientResponses_def noFlags_def)
  next
    case (Inr p)
    obtain flags this' where p: "p = (flags, this')" by (cases p)
    from loadResponses_flags [OF Inr [unfolded p]]
    have "cacheLoaded flags \<longleftrightarrow> ''cache'' \<in> responseKinds rs"
      "codemodelLoaded flags \<longleftrightarrow> ''codemodel'' \<in> responseKinds rs"
      "toolchainLoaded flags \<longleftrightarrow> ''toolchains'' \<in> responseKinds rs"
      by (simp_all add: noFlags_def)
    with r c rs Inr p show ?thesis
      by (simp add: loadClientResponses_def noFlags_def)
  qed
qed

section \<open>The descriptor sequence\<close>

lemma pushFragments_map: "pushFragments acc cs = acc @ map fragment cs"
  by (induction cs arbitrary: acc) simp_all

lemma pushIncludes_map: "pushIncludes options acc is = acc @ map (includeFlag options) is"
  by (induction "is" arbitrary: acc) (simp_all add: includeFlag_def)

lemma pushDefines_map: "pushDefines acc ds = acc @ map defineFlag ds"
  by (induction ds arbitrary: acc) (simp_all add: defineFlag_def)

lemma getCompileGroupArguments_eq: "getCompileGroupArguments grp options = groupArguments grp options"
  by (simp add: getCompileGroupArguments_def groupArguments_def Let_def
      pushFragments_map pushIncludes_map pushDefines_map)

lemma thenYield_ok [simp]: "thenYield (xs, None) (ys, err) = (xs @ ys, err)"
  by (simp add: thenYield_def)

lemma thenYield_ok': "thenYield (xs, None) y = (xs @ fst y, snd y)"
  by (simp add: thenYield_def)

lemma yieldSources_valid:
  assumes "sources targetData = Some srcs" "sourceRoot this = Some root"
    "\<forall>i \<in> set idxs. i < length srcs"
  shows "yieldSources this targetData a ci idxs =
     (map (\<lambda>i. \<lparr>source = win32_join [root, source_path (srcs ! i)], args = a, compiler = ci\<rparr>) idxs,
      None)"
  using assms by (induction idxs) (simp_all add: sourceOf_def)

lemma yieldSources_nil: "yieldSources this targetData a ci [] = ([], None)"
  by simp

lemma groupDescriptors_None:
  "selectCompiler this g = None \<Longrightarrow> groupDescriptors this targetData options g = []"
  by (simp add: groupDescriptors_def)

lemma groupDescriptors_Some:
  "selectCompiler this g = Some ci \<Longrightarrow> sources targetData = Some srcs \<Longrightarrow>
   sourceRoot this = Some root \<Longrightarrow>
   groupDescriptors this targetData options g =
     map (\<lambda>i. \<lparr>source = win32_join [root, source_path (srcs ! i)],
                 args = groupArguments g options, compiler = ci\<rparr>)
         (iterateIfExists (sourceIndexes g))"
  by (simp add: groupDescriptors_def)

lemma groupDescriptors_no_sources:
  "iterateIfExists (sourceIndexes g) = [] \<Longrightarrow> groupDescriptors this targetData options g = []"
  by (simp add: groupDescriptors_def split: option.splits)

lemma yieldGroups_valid:
  assumes "sourceRoot this = Some root"
    "\<forall>grp \<in> set grps. validGroup this targetData grp"
  shows "yieldGroups this targetData options grps =
     (concat (map (groupDescriptors this targetData options) grps), None)"
  using assms(2)
proof (induction grps)
  case Nil
  then show ?case by simp
next
  case (Cons g gs)
  then have ih: "yieldGroups this targetData options gs =
      (concat (map (groupDescriptors this targetData options) gs), None)" by simp
  show ?case
  proof (cases "selectCompiler this g")
    case None
    with ih show ?thesis by (simp add: groupDescriptors_None)
  next
    case (Some ci)
    show ?thesis
    proof (cases "iterateIfExists (sourceIndexes g) = []")
      case True
      with Some ih show ?thesis by (simp add: groupDescriptors_no_sources)
    next
      case False
      with Cons.prems Some obtain srcs where s: "sources targetData = Some srcs"
        and v: "\<forall>i \<in> set (iterateIfExists (sourceIndexes g)). i < length srcs"
        by (cases "sources targetData") (auto simp: validGroup_def)
      from yieldSources_valid [OF s assms(1) v] Some ih show ?thesis
        by (simp add: groupDescriptors_Some [OF Some s assms(1)] getCompileGroupArguments_eq)
    qed
  qed
qed

lemma yieldTargets_valid:
  assumes "sourceRoot this = Some root"
    "\<forall>t \<in> set ts. validTarget e this t"
  shows "yieldTargets e this options ts =
     (concat (map (targetDescriptors e this options) ts), None)"
  using assms(2)
proof (induction ts)
  case Nil
  then show ?case by simp
next
  case (Cons t ts)
  then have ih: "yieldTargets e this options ts =
      (concat (map (targetDescriptors e this options) ts), None)" by simp
  from Cons.prems obtain td where p: "parseReplyFile e t = Inr td"
    and g: "\<forall>grp \<in> set (iterateIfExists (compileGroups td)). validGroup this td grp"
    by (auto simp: validTarget_def split: sum.splits)
  from p have "targetDescriptors e this options t =
      concat (map (groupDescriptors this td options) (iterateIfExists (compileGroups td)))"
    by (simp add: targetDescriptors_def)
  with yieldGroups_valid [OF assms(1) g, of options] p ih show ?case
    by simp
qed

lemma yieldGroups_skip:
  "selectCompiler this g = None \<Longrightarrow>
   yieldGroups this td options (gs1 @ g # gs2) = yieldGroups this td options (gs1 @ gs2)"
  by (induction gs1) (simp_all split: option.splits)

lemma sourceOf_compileGroups [simp]:
  "sourceOf this (td\<lparr>compileGroups := x\<rparr>) i = sourceOf this td i"
  by (simp add: sourceOf_def)

lemma yieldSources_compileGroups [simp]:
  "yieldSources this (td\<lparr>compileGroups := x\<rparr>) a ci idxs = yieldSources this td a ci idxs"
  by (induction idxs) (simp_all split: sum.splits)

lemma yieldGroups_compileGroups [simp]:
  "yieldGroups this (td\<lparr>compileGroups := x\<rparr>) options grps = yieldGroups this td options grps"
  by (induction grps) (simp_all split: option.splits)

lemma yieldTargets_withoutGroup:
  assumes "parseReplyFile e target = Inr td" "compileGroups td = Some (gs1 @ g # gs2)"
    "selectCompiler this g = None"
  shows "yieldTargets (withoutGroup e target td (gs1 @ gs2)) this options ts =
         yieldTargets e this options ts"
proof (induction ts)
  case Nil
  then show ?case by simp
next
  case (Cons t ts)
  show ?case
  proof (cases "t = target")
    case True
    from assms(1) have "parseReplyFile (withoutGroup e target td (gs1 @ gs2)) target =
        Inr (td\<lparr>compileGroups := Some (gs1 @ gs2)\<rparr>)"
      by (auto simp: parseReplyFile_def withoutGroup_def split: if_splits)
    then show ?thesis
      using Cons True assms yieldGroups_skip [OF assms(3), of td options gs1 gs2] by simp
  next
    case False
    then have "parseReplyFile (withoutGroup e target td (gs1 @ gs2)) t = parseReplyFile e t"
      by (simp add: parseReplyFile_def withoutGroup_def)
    with Cons show ?thesis by (simp split: sum.splits)
  qed
qed

section \<open>Query write and version gate in \<open>loadApi\<close>\<close>

lemma createApiQuery_writes:
  "createApiQuery e apiDir = (effs, None) \<Longrightarrow>
   WriteFile (win32_join [win32_join [apiDir, ''query'', clientName], ''query.json'']) queryData
     \<in> set effs"
  by (auto simp: createApiQuery_def Let_def split: if_splits option.splits)

section \<open>The example build tree, evaluated\<close>

lemma example_join_apiDir: "win32_join [exampleBuildRoot, ''.cmake/api/v1''] = exampleApiDir"
  by code_simp

lemma example_join_replyDir: "win32_join [exampleApiDir, ''reply''] = exampleReplyDir"
  by code_simp

lemma example_getApiReplyIndex:
  "getApiReplyIndex (exampleEnv v rs) exampleApiDir = Inr (exampleIndex v rs)"
  unfolding getApiReplyIndex_def example_join_replyDir
  by (simp add: exampleEnv_def exampleFiles_def parseReplyFile_def startsWith_def
      win32_basename_def isPathSeparator_def backslash_def isWindowsDeviceRoot_def
      exampleReplyDir_def exampleBuildRoot_def winpath_def)

lemma example_join_reply_file:
  "win32_join [exampleReplyDir, ''cache-v2.json''] = winpath [exampleReplyDir, ''cache-v2.json'']"
  "win32_join [exampleReplyDir, ''cache-cxx-only.json''] = winpath [exampleReplyDir, ''cache-cxx-only.json'']"
  "win32_join [exampleReplyDir, ''codemodel-v2.json''] = winpath [exampleReplyDir, ''codemodel-v2.json'']"
  "win32_join [exampleReplyDir, ''toolchains-v1.json''] = winpath [exampleReplyDir, ''toolchains-v1.json'']"
  "win32_join [exampleReplyDir, ''target-app.json''] = winpath [exampleReplyDir, ''target-app.json'']"
  by code_simp+

lemma example_parse_target:
  "parseReplyFile (exampleEnv v rs) (winpath [exampleReplyDir, ''target-app.json'']) = Inr exampleTarget"
  by (simp add: parseReplyFile_def exampleEnv_def exampleFiles_def winpath_def
      exampleReplyDir_def exampleBuildRoot_def exampleApiDir_def)

lemmas example_paths = winpath_def exampleReplyDir_def exampleBuildRoot_def exampleApiDir_def

lemma example_parse_replies:
  "parseReplyFile (exampleEnv v rs) (winpath [exampleReplyDir, ''cache-v2.json'']) = Inr exampleCache"
  "parseReplyFile (exampleEnv v rs) (winpath [exampleReplyDir, ''cache-cxx-only.json'']) = Inr exampleCacheCxxOnly"
  "parseReplyFile (exampleEnv v rs) (winpath [exampleReplyDir, ''codemodel-v2.json'']) = Inr exampleCodemodel"
  "parseReplyFile (exampleEnv v rs) (winpath [exampleReplyDir, ''toolchains-v1.json'']) = Inr exampleToolchains"
  by (simp_all add: parseReplyFile_def exampleEnv_def exampleFiles_def example_paths)

lemma example_listed: "listedResponses (exampleIndex v rs) = Some rs"
  by (simp add: listedResponses_def exampleIndex_def emptyDoc_def)

lemma example_loadCache:
  "loadCache (exampleEnv v rs) this (winpath [exampleReplyDir, ''cache-v2.json'']) =
     Inr (this\<lparr>cache := (cache this)(''CMAKE_C_COMPILER'' \<mapsto> exampleClPath,
                                        ''CMAKE_CXX_COMPILER'' \<mapsto> exampleClPath)\<rparr>)"
  by (simp add: loadCache_def example_parse_replies exampleCache_def emptyDoc_def)

lemma example_loadCacheCxxOnly:
  "loadCache (exampleEnv v rs) this (winpath [exampleReplyDir, ''cache-cxx-only.json'']) =
     Inr (this\<lparr>cache := (cache this)(''CMAKE_CXX_COMPILER'' \<mapsto> exampleClPath)\<rparr>)"
  by (simp add: loadCache_def example_parse_replies exampleCacheCxxOnly_def emptyDoc_def)

lemma example_loadCodemodel:
  "loadCodemodel (exampleEnv v rs) this exampleReplyDir (winpath [exampleReplyDir, ''codemodel-v2.json'']) =
     Inr (this\<lparr>sourceRoot := Some ''C:/src'',
               targetFilepaths := targetFilepaths this @ [winpath [exampleReplyDir, ''target-app.json'']]\<rparr>)"
  by (simp add: loadCodemodel_def example_parse_replies exampleCodemodel_def emptyDoc_def
      example_join_reply_file)

lemma example_loadToolchains:
  "loadToolchains (exampleEnv v rs) this (winpath [exampleReplyDir, ''toolchains-v1.json'']) =
     Inr (this\<lparr>cxxCompilerInfo := Some \<lparr>info_path = exampleClPath, info_version = ''19.29.30133'',
                               info_includes = []\<rparr>\<rparr>)"
  by (simp add: loadToolchains_def example_parse_replies exampleToolchains_def emptyDoc_def
      requireCompiler_def infoOfCompiler_def)

lemmas example_loads = example_loadCache example_loadCacheCxxOnly example_loadCodemodel
  example_loadToolchains example_join_reply_file
  cacheResponse_def cacheCxxOnlyResponse_def codemodelResponse_def toolchainsResponse_def

lemma example_kinds:
  "responseKinds [cacheResponse, toolchainsResponse] = {''cache'', ''toolchains''}"
  "responseKinds [codemodelResponse, toolchainsResponse] = {''codemodel'', ''toolchains''}"
  "responseKinds [cacheResponse, codemodelResponse] = {''cache'', ''codemodel''}"
  "responseKinds [cacheCxxOnlyResponse, codemodelResponse] = {''cache'', ''codemodel''}"
  "responseKinds allResponses = {''cache'', ''codemodel'', ''toolchains''}"
  by (auto simp: responseKinds_def allResponses_def cacheResponse_def cacheCxxOnlyResponse_def
      codemodelResponse_def toolchainsResponse_def)

lemma example_fallback:
  "loadToolchainsFromCache
     (newCMakeApi\<lparr>cache := [''CMAKE_C_COMPILER'' \<mapsto> exampleClPath, ''CMAKE_CXX_COMPILER'' \<mapsto> exampleClPath],
        sourceRoot := Some ''C:/src'',
        targetFilepaths := [winpath [exampleReplyDir, ''target-app.json'']]\<rparr>) =
   Inr (newCMakeApi\<lparr>cache := [''CMAKE_C_COMPILER'' \<mapsto> exampleClPath, ''CMAKE_CXX_COMPILER'' \<mapsto> exampleClPath],
        sourceRoot := Some ''C:/src'',
        targetFilepaths := [winpath [exampleReplyDir, ''target-app.json'']],
        cCompilerInfo := Some (infoFromPath exampleClPath),
        cxxCompilerInfo := Some (infoFromPath exampleClPath)\<rparr>)"
  by (simp add: loadToolchainsFromCache_def newCMakeApi_def requireCompiler_def)
    (simp add: endsWith_def exampleClPath_def)

lemma example_cmake:
  "findExecutableOnPath (exampleEnv v rs) ''cmake.exe'' = Inr (winpath [''C:'', ''cmake'', ''bin'', ''cmake.exe''])"
proof -
  have s: "splitWhere (\<lambda>c. c = CHR '';'') (exampleReplyDir @ '';'' @ winpath [''C:'', ''cmake'', ''bin''])
      = [exampleReplyDir, winpath [''C:'', ''cmake'', ''bin'']]"
    by code_simp
  have j: "win32_join [exampleReplyDir, ''cmake.exe''] = winpath [exampleReplyDir, ''cmake.exe'']"
    "win32_join [winpath [''C:'', ''cmake'', ''bin''], ''cmake.exe''] = winpath [''C:'', ''cmake'', ''bin'', ''cmake.exe'']"
    by code_simp+
  have x: "\<not> existsSync (exampleEnv v rs) (winpath [exampleReplyDir, ''cmake.exe''])"
    "existsSync (exampleEnv v rs) (winpath [''C:'', ''cmake'', ''bin'', ''cmake.exe''])"
    by (simp_all add: exampleEnv_def exampleFiles_def example_paths)
  have c: "cwd (exampleEnv v rs) = exampleReplyDir" "envPATH (exampleEnv v rs) = winpath [''C:'', ''cmake'', ''bin'']"
    by (simp_all add: exampleEnv_def)
  show ?thesis
    unfolding findExecutableOnPath_def c Let_def s
    by (simp add: j x)
qed

lemma example_query_paths:
  "win32_join [exampleApiDir, ''query'', clientName] = winpath [exampleApiDir, ''query'', clientName]"
  "win32_join [winpath [exampleApiDir, ''query'', clientName], ''query.json''] =
     winpath [exampleApiDir, ''query'', clientName, ''query.json'']"
  by code_simp+

lemma example_createApiQuery:
  "createApiQuery (exampleEnv v rs) exampleApiDir =
     ([MkDir (winpath [exampleApiDir, ''query'', clientName]),
       WriteFile (winpath [exampleApiDir, ''query'', clientName, ''query.json'']) queryData], None)"
  unfolding createApiQuery_def example_query_paths Let_def
  by (simp add: exampleEnv_def exampleFiles_def example_paths clientName_def)

lemma example_preflight:
  "exampleBuildRoot \<noteq> []" "existsSync (exampleEnv v rs) exampleBuildRoot"
  "readdirSync (exampleEnv v rs) exampleBuildRoot = Inr [''.cmake'', ''CMakeCache.txt'']"
  "existsSync (exampleEnv v rs) exampleApiDir"
  by (simp_all add: exampleEnv_def exampleFiles_def example_paths)

lemma example_loadResponses_all:
  "loadResponses (exampleEnv v rs) exampleReplyDir (noFlags, newCMakeApi) allResponses =
     Inr (\<lparr>cacheLoaded = True, codemodelLoaded = True, toolchainLoaded = True\<rparr>,
          exampleLoaded\<lparr>loaded := False\<rparr>)"
  by (simp add: allResponses_def example_loads noFlags_def newCMakeApi_def exampleLoaded_def)

section \<open>Normalization of drive paths\<close>


lemma splitWhere_not_Nil [simp]: "splitWhere P r \<noteq> []"
  by (induction r) (simp_all split: list.splits)






lemma normalizeSegment_empty [simp]: "normalizeSegment a res [] = res"
  by (simp add: normalizeSegment_def)



lemma colon_facts [simp]: "\<not> isPathSeparator CHR '':''"
  by (simp add: isPathSeparator_def backslash_def)









lemma plain_include [simp]: "plainSegment ''include''"
  by (simp add: plainSegment_def isPathSeparator_def backslash_def)







lemma example_cmake_nonempty: "winpath [''C:'', ''cmake'', ''bin'', ''cmake.exe''] \<noteq> []"
  by (simp add: winpath_def)

lemma example_loadApi:
  "loadApi (exampleEnv v rs) this exampleBuildRoot =
     ([MkDir (winpath [exampleApiDir, ''query'', clientName]),
       WriteFile (winpath [exampleApiDir, ''query'', clientName, ''query.json'']) queryData],
      Inl (TypeError ''child_process.spawn: args is a string''))"
  by (simp add: loadApi_def example_preflight example_cmake example_join_apiDir
      example_getApiReplyIndex example_createApiQuery child_process_spawn_def
      example_cmake_nonempty)

lemma example_toolchains_gnu:
  "loadToolchains (exampleEnv v rs) this (winpath [exampleReplyDir, ''toolchains-gnu.json'']) =
     (if cCompilerInfo this = None \<and> cxxCompilerInfo this = None
      then Inl (Error ''Action requires use of MSVC for either/both C or C++.'')
      else Inr this)"
proof -
  have "parseReplyFile (exampleEnv v rs) (winpath [exampleReplyDir, ''toolchains-gnu.json'']) =
      Inr exampleToolchainsGnu"
    by (simp add: parseReplyFile_def exampleEnv_def exampleFiles_def example_paths)
  then show ?thesis
    by (simp add: loadToolchains_def exampleToolchainsGnu_def emptyDoc_def requireCompiler_def)
qed

lemma example_join_gnu:
  "win32_join [exampleReplyDir, ''toolchains-gnu.json''] =
     winpath [exampleReplyDir, ''toolchains-gnu.json'']"
  by code_simp

section \<open>\<open>loadApi\<close> and the build tool\<close>

lemma createApiQuery_effects:
  "createApiQuery e apiDir = (effs, r) \<Longrightarrow> Spawn c a \<notin> set effs"
  by (auto simp: createApiQuery_def Let_def split: if_splits option.splits)

lemma child_process_spawn_raises: "child_process_spawn file a \<noteq> None"
  by (simp add: child_process_spawn_def)

lemma loadApi_stops_at_spawn:
  "Spawn c a \<notin> set (fst (loadApi e this buildRoot)) \<and>
   snd (loadApi e this buildRoot) \<noteq> Inr this'"
proof (cases "createApiQuery e (win32_join [buildRoot, ''.cmake/api/v1''])")
  case (Pair effs r)
  from createApiQuery_effects [OF Pair] have n: "Spawn c a \<notin> set effs" .
  show ?thesis
    using n Pair
    by (auto simp: loadApi_def Let_def child_process_spawn_def split: sum.splits option.splits)
qed

section \<open>The claims\<close>

text \<open>
  Claim C1. For a loaded object whose target files are valid, the iterator raises nothing and
  yields the descriptors of the targets in target order, within a target those of its groups
  in group order, within a group one descriptor per source index in index order (a group
  whose language has no compiler is passed over, as claim C9 says); and the
  argument string of every group is its fragments verbatim, then one quoted include flag per
  include (\<open>/external:I\<close> exactly when \<open>ignoreSystemHeaders\<close> is set and the include is marked
  as a system include, \<open>/I\<close> otherwise), then one quoted \<open>/D\<close> flag per define, joined by
  single blanks.
\<close>

theorem compileCommandsIterator_order:
  "loaded this \<Longrightarrow> sourceRoot this \<noteq> None \<Longrightarrow>
   \<forall>t \<in> set (targetFilepaths this). validTarget e this t \<Longrightarrow>
   compileCommandsIterator e this options =
     (concat (map (targetDescriptors e this options) (targetFilepaths this)), None) \<and>
   getCompileGroupArguments grp options = groupArguments grp options"
  using yieldTargets_valid [of this _ "targetFilepaths this" e options]
  by (auto simp: compileCommandsIterator_def getCompileGroupArguments_eq)

text \<open>
  The theorem at the example tree: the C++ group with the fragment \<open>-O2\<close>, the include
  \<open>C:\inc\<close> and the define \<open>FOO=1\<close> gives the argument string \<open>-O2 "/IC:\inc" "/DFOO=1"\<close>
  and one descriptor for each of its two source indexes, in order.
\<close>

theorem compileCommandsIterator_order_witness:
  "compileCommandsIterator (exampleEnv ''3.20.0'' allResponses) exampleLoaded exampleOptions =
     ([\<lparr>source = winpath [''C:'', ''src'', ''main.cpp''],
        args = ''-O2 '' @ [dquote] @ ''/IC:'' @ [backslash] @ ''inc'' @ [dquote] @ '' '' @
               [dquote] @ ''/DFOO=1'' @ [dquote],
        compiler = \<lparr>info_path = exampleClPath, info_version = ''19.29.30133'',
                     info_includes = []\<rparr>\<rparr>,
       \<lparr>source = winpath [''C:'', ''src'', ''util.cpp''],
        args = ''-O2 '' @ [dquote] @ ''/IC:'' @ [backslash] @ ''inc'' @ [dquote] @ '' '' @
               [dquote] @ ''/DFOO=1'' @ [dquote],
        compiler = \<lparr>info_path = exampleClPath, info_version = ''19.29.30133'',
                     info_includes = []\<rparr>\<rparr>],
      None)"
proof -
  let ?e = "exampleEnv ''3.20.0'' allResponses"
  have l: "loaded exampleLoaded" "sourceRoot exampleLoaded \<noteq> None"
    by (simp_all add: exampleLoaded_def)
  have t: "targetFilepaths exampleLoaded = [winpath [exampleReplyDir, ''target-app.json'']]"
    by (simp add: exampleLoaded_def)
  have sc: "selectCompiler exampleLoaded exampleGroup = cxxCompilerInfo exampleLoaded"
    "selectCompiler exampleLoaded fortranGroup = None"
    by (simp_all add: selectCompiler_def exampleGroup_def fortranGroup_def)
  have v: "\<forall>t \<in> set (targetFilepaths exampleLoaded). validTarget ?e exampleLoaded t"
    unfolding t
    by (simp add: validTarget_def example_parse_target exampleTarget_def emptyDoc_def
        validGroup_def sc) (simp add: exampleGroup_def exampleLoaded_def)
  have j: "win32_join [''C:/src'', ''main.cpp''] = winpath [''C:'', ''src'', ''main.cpp'']"
    "win32_join [''C:/src'', ''util.cpp''] = winpath [''C:'', ''src'', ''util.cpp'']"
    by code_simp+
  have a: "groupArguments exampleGroup exampleOptions =
      ''-O2 '' @ [dquote] @ ''/IC:'' @ [backslash] @ ''inc'' @ [dquote] @ '' '' @
               [dquote] @ ''/DFOO=1'' @ [dquote]"
    by (simp add: groupArguments_def exampleGroup_def includeFlag_def defineFlag_def
        exampleOptions_def escapeArgument_eq trailingRun_def backslash_def)
  from compileCommandsIterator_order [OF l v, of exampleOptions exampleGroup]
  have "compileCommandsIterator ?e exampleLoaded exampleOptions =
      (concat (map (targetDescriptors ?e exampleLoaded exampleOptions)
         (targetFilepaths exampleLoaded)), None)"
    by (rule conjunct1)
  also have "concat (map (targetDescriptors ?e exampleLoaded exampleOptions)
         (targetFilepaths exampleLoaded)) =
       groupDescriptors exampleLoaded exampleTarget exampleOptions exampleGroup @
       groupDescriptors exampleLoaded exampleTarget exampleOptions fortranGroup"
    unfolding t by (simp add: targetDescriptors_def example_parse_target)
      (simp add: exampleTarget_def emptyDoc_def)
  also have "groupDescriptors exampleLoaded exampleTarget exampleOptions fortranGroup = []"
    by (simp add: groupDescriptors_def sc)
  also have "groupDescriptors exampleLoaded exampleTarget exampleOptions exampleGroup =
      [\<lparr>source = win32_join [''C:/src'', ''main.cpp''],
        args = groupArguments exampleGroup exampleOptions,
        compiler = \<lparr>info_path = exampleClPath, info_version = ''19.29.30133'',
                     info_includes = []\<rparr>\<rparr>,
       \<lparr>source = win32_join [''C:/src'', ''util.cpp''],
        args = groupArguments exampleGroup exampleOptions,
        compiler = \<lparr>info_path = exampleClPath, info_version = ''19.29.30133'',
                     info_includes = []\<rparr>\<rparr>]"
    by (simp add: groupDescriptors_def sc)
      (simp add: exampleLoaded_def exampleTarget_def emptyDoc_def exampleGroup_def)
  finally show ?thesis
    by (simp only: j a append_Nil2)
qed

text \<open>
  Claim C4, as the code has it. \<open>loadApi\<close> writes the query before it looks at the version:
  when the index that is already there reports a version below \<open>3.13.7\<close>, and creating the
  query directory does not raise, the load fails, but only after it has ensured the query
  directory and written the query document.
\<close>

theorem loadApi_writes_query_then_fails:
  assumes "buildRoot \<noteq> []" "existsSync e buildRoot"
    "readdirSync e buildRoot = Inr names" "names \<noteq> []"
    "findExecutableOnPath e ''cmake.exe'' = Inr cmakePath"
    "getApiReplyIndex e (win32_join [buildRoot, ''.cmake/api/v1'']) = Inr indexQuery"
    "createApiQuery e (win32_join [buildRoot, ''.cmake/api/v1'']) = (effs, None)"
    "version_string indexQuery = Some v" "lexLess v ''3.13.7''"
  shows "(\<exists>err. loadApi e this buildRoot = (effs, Inl err)) \<and>
         WriteFile (win32_join [win32_join [win32_join [buildRoot, ''.cmake/api/v1''],
                      ''query'', clientName], ''query.json'']) queryData \<in> set effs"
proof -
  obtain err where "child_process_spawn cmakePath buildRoot = Some err"
    using child_process_spawn_raises [of cmakePath buildRoot] by blast
  with assms have "loadApi e this buildRoot = (effs, Inl err)"
    by (simp add: loadApi_def Let_def)
  with createApiQuery_writes [OF assms(7)] show ?thesis
    by blast
qed

text \<open>
  The theorem at the example tree with an index of version \<open>3.13.6\<close>: the load fails after
  it has created the query directory and written \<open>query.json\<close>.
\<close>

theorem loadApi_writes_query_then_fails_witness:
  "version_string (exampleIndex ''3.13.6'' allResponses) = Some ''3.13.6'' \<and>
   lexLess ''3.13.6'' ''3.13.7'' \<and>
   fst (loadApi (exampleEnv ''3.13.6'' allResponses) newCMakeApi exampleBuildRoot) =
     [MkDir (winpath [exampleApiDir, ''query'', clientName]),
      WriteFile (winpath [exampleApiDir, ''query'', clientName, ''query.json'']) queryData] \<and>
   WriteFile (winpath [exampleApiDir, ''query'', clientName, ''query.json'']) queryData
     \<in> set (fst (loadApi (exampleEnv ''3.13.6'' allResponses) newCMakeApi exampleBuildRoot))"
proof -
  have v: "version_string (exampleIndex ''3.13.6'' allResponses) = Some ''3.13.6''"
    by (simp add: exampleIndex_def)
  have lx: "lexLess ''3.13.6'' ''3.13.7''"
    unfolding js_str_lt_lexLess [symmetric] by simp
  have n: "[''.cmake'', ''CMakeCache.txt''] \<noteq> []" by simp
  note t = loadApi_writes_query_then_fails [of exampleBuildRoot "exampleEnv ''3.13.6'' allResponses",
      OF example_preflight(1,2,3) n example_cmake
        example_getApiReplyIndex [folded example_join_apiDir]
        example_createApiQuery [folded example_join_apiDir] v lx,
      of newCMakeApi]
  from t obtain err where l: "loadApi (exampleEnv ''3.13.6'' allResponses) newCMakeApi exampleBuildRoot =
      ([MkDir (winpath [exampleApiDir, ''query'', clientName]),
        WriteFile (winpath [exampleApiDir, ''query'', clientName, ''query.json'']) queryData],
       Inl err)"
    by (auto simp: example_join_apiDir)
  from v lx l show ?thesis by simp
qed

text \<open>
  The claim as stated, that a load which meets an index below the minimum version fails
  before any query document is written, fails at the example tree with an index of version
  \<open>3.13.6\<close>: the load has created the query directory and written \<open>query.json\<close> when it
  ends, and it ends where it tries to start the build tool, before the version is compared.
\<close>

theorem loadApi_writes_query_before_gate:
  "js_str_lt ''3.13.6'' ''3.13.7'' \<and>
   version_string (exampleIndex ''3.13.6'' allResponses) = Some ''3.13.6'' \<and>
   loadApi (exampleEnv ''3.13.6'' allResponses) newCMakeApi exampleBuildRoot =
     ([MkDir (winpath [exampleApiDir, ''query'', clientName]),
       WriteFile (winpath [exampleApiDir, ''query'', clientName, ''query.json'']) queryData],
      Inl (TypeError ''child_process.spawn: args is a string''))"
  by (simp add: example_loadApi exampleIndex_def)

text \<open>
  Claim C5. Once the index is read, \<open>loadReplyFiles\<close> raises the version error exactly when
  the index's version string is lexicographically below \<open>3.13.7\<close>, and goes on to the
  responses otherwise; \<open>3.13.6\<close> is below, \<open>3.13.7\<close> and \<open>3.20.0\<close> are not.
\<close>

theorem version_gate:
  "(getApiReplyIndex e apiDir = Inr indexReply \<and> version_string indexReply = Some v \<longrightarrow>
      loadReplyFiles e this apiDir =
        (if lexLess v ''3.13.7'' then Inl (Error ''Action requires CMake version >= 3.13.7'')
         else loadClientResponses e this apiDir indexReply)) \<and>
   lexLess ''3.13.6'' ''3.13.7'' \<and> \<not> lexLess ''3.13.7'' ''3.13.7'' \<and> \<not> lexLess ''3.20.0'' ''3.13.7''"
proof -
  have "lexLess ''3.13.6'' ''3.13.7''" "\<not> lexLess ''3.13.7'' ''3.13.7''" "\<not> lexLess ''3.20.0'' ''3.13.7''"
    unfolding js_str_lt_lexLess [symmetric] by simp_all
  then show ?thesis
    by (simp add: loadReplyFiles_def js_str_lt_lexLess)
qed

text \<open>
  The theorem at the example tree with the three versions.
\<close>

theorem version_gate_witness:
  "loadReplyFiles (exampleEnv ''3.13.6'' allResponses) newCMakeApi exampleApiDir =
     Inl (Error ''Action requires CMake version >= 3.13.7'') \<and>
   loadReplyFiles (exampleEnv ''3.13.7'' allResponses) newCMakeApi exampleApiDir =
     loadClientResponses (exampleEnv ''3.13.7'' allResponses) newCMakeApi exampleApiDir
       (exampleIndex ''3.13.7'' allResponses) \<and>
   loadReplyFiles (exampleEnv ''3.20.0'' allResponses) newCMakeApi exampleApiDir =
     loadClientResponses (exampleEnv ''3.20.0'' allResponses) newCMakeApi exampleApiDir
       (exampleIndex ''3.20.0'' allResponses)"
proof -
  have v: "version_string (exampleIndex x allResponses) = Some x" for x
    by (simp add: exampleIndex_def)
  show ?thesis
    using version_gate [of "exampleEnv ''3.13.6'' allResponses" exampleApiDir
        "exampleIndex ''3.13.6'' allResponses" "''3.13.6''" newCMakeApi]
      version_gate [of "exampleEnv ''3.13.7'' allResponses" exampleApiDir
        "exampleIndex ''3.13.7'' allResponses" "''3.13.7''" newCMakeApi]
      version_gate [of "exampleEnv ''3.20.0'' allResponses" exampleApiDir
        "exampleIndex ''3.20.0'' allResponses" "''3.20.0''" newCMakeApi]
    by (simp add: example_getApiReplyIndex v)
qed

text \<open>
  Claim C8, as the code has it. With \<open>rs\<close> the responses the index lists, \<open>loadClientResponses\<close> raises what a
  loader of the loop raises; when the loop ends normally it raises the missing-cache error if
  \<open>rs\<close> has no cache response, else the missing-codemodel error if \<open>rs\<close> has no codemodel
  response, else it resolves the toolchains from the cache if \<open>rs\<close> has no toolchains
  response, and returns the loaded object otherwise. So a missing codemodel response always
  ends in an error: the error of a loader that raised, or else a missing-response error.
\<close>

theorem missing_responses:
  "listedResponses indexReply = Some rs \<Longrightarrow>
   loadClientResponses e this apiDir indexReply =
     (case loadResponses e (win32_join [apiDir, ''reply'']) (noFlags, this) rs of
        Inl err \<Rightarrow> Inl err
      | Inr (flags, this') \<Rightarrow>
          if ''cache'' \<notin> responseKinds rs
          then Inl (Error ''Failed to load cache response from CMake API'')
          else if ''codemodel'' \<notin> responseKinds rs
          then Inl (Error ''Failed to load codemodel response from CMake API'')
          else if ''toolchains'' \<notin> responseKinds rs
          then loadToolchainsFromCache this'
          else Inr this') \<and>
   (''codemodel'' \<notin> responseKinds rs \<longrightarrow>
      (\<exists>err. loadClientResponses e this apiDir indexReply = Inl err))"
proof -
  assume l: "listedResponses indexReply = Some rs"
  note eq = loadClientResponses_listed [OF l, of e this apiDir]
  have "\<exists>err. loadClientResponses e this apiDir indexReply = Inl err"
    if "''codemodel'' \<notin> responseKinds rs"
    using that unfolding eq by (auto split: sum.splits)
  with eq show ?thesis by blast
qed

text \<open>
  The theorem at the example tree: without the codemodel response the load raises the
  missing-codemodel error, without the cache response the missing-cache error, and without
  the toolchains response it resolves both compilers from the cache.
\<close>

theorem missing_responses_witness:
  "loadClientResponses (exampleEnv ''3.20.0'' [cacheResponse, toolchainsResponse]) newCMakeApi
     exampleApiDir (exampleIndex ''3.20.0'' [cacheResponse, toolchainsResponse]) =
     Inl (Error ''Failed to load codemodel response from CMake API'') \<and>
   loadClientResponses (exampleEnv ''3.20.0'' [codemodelResponse, toolchainsResponse]) newCMakeApi
     exampleApiDir (exampleIndex ''3.20.0'' [codemodelResponse, toolchainsResponse]) =
     Inl (Error ''Failed to load cache response from CMake API'') \<and>
   loadClientResponses (exampleEnv ''3.20.0'' [cacheResponse, codemodelResponse]) newCMakeApi
     exampleApiDir (exampleIndex ''3.20.0'' [cacheResponse, codemodelResponse]) =
     Inr (newCMakeApi\<lparr>cache := [''CMAKE_C_COMPILER'' \<mapsto> exampleClPath, ''CMAKE_CXX_COMPILER'' \<mapsto> exampleClPath],
        sourceRoot := Some ''C:/src'',
        targetFilepaths := [winpath [exampleReplyDir, ''target-app.json'']],
        cCompilerInfo := Some (infoFromPath exampleClPath),
        cxxCompilerInfo := Some (infoFromPath exampleClPath)\<rparr>)"
proof -
  let ?st = "newCMakeApi\<lparr>cache := [''CMAKE_C_COMPILER'' \<mapsto> exampleClPath, ''CMAKE_CXX_COMPILER'' \<mapsto> exampleClPath],
        sourceRoot := Some ''C:/src'',
        targetFilepaths := [winpath [exampleReplyDir, ''target-app.json'']]\<rparr>"
  have "\<exists>p. loadResponses (exampleEnv ''3.20.0'' [cacheResponse, toolchainsResponse])
      exampleReplyDir (noFlags, newCMakeApi) [cacheResponse, toolchainsResponse] = Inr p"
    by (simp add: example_loads)
  then obtain f1 s1 where l1: "loadResponses (exampleEnv ''3.20.0'' [cacheResponse, toolchainsResponse])
      exampleReplyDir (noFlags, newCMakeApi) [cacheResponse, toolchainsResponse] = Inr (f1, s1)"
    by force
  have 1: "loadClientResponses (exampleEnv ''3.20.0'' [cacheResponse, toolchainsResponse]) newCMakeApi
     exampleApiDir (exampleIndex ''3.20.0'' [cacheResponse, toolchainsResponse]) =
     Inl (Error ''Failed to load codemodel response from CMake API'')"
    using missing_responses [where indexReply = "exampleIndex ''3.20.0'' [cacheResponse, toolchainsResponse]"
        and rs = "[cacheResponse, toolchainsResponse]"
        and e = "exampleEnv ''3.20.0'' [cacheResponse, toolchainsResponse]"
        and this = newCMakeApi and apiDir = exampleApiDir, OF example_listed,
        unfolded example_join_replyDir l1, THEN conjunct1]
    by (simp add: example_kinds)
  have "\<exists>p. loadResponses (exampleEnv ''3.20.0'' [codemodelResponse, toolchainsResponse])
      exampleReplyDir (noFlags, newCMakeApi) [codemodelResponse, toolchainsResponse] = Inr p"
    by (simp add: example_loads)
  then obtain f2 s2 where l2: "loadResponses (exampleEnv ''3.20.0'' [codemodelResponse, toolchainsResponse])
      exampleReplyDir (noFlags, newCMakeApi) [codemodelResponse, toolchainsResponse] = Inr (f2, s2)"
    by force
  have 2: "loadClientResponses (exampleEnv ''3.20.0'' [codemodelResponse, toolchainsResponse]) newCMakeApi
     exampleApiDir (exampleIndex ''3.20.0'' [codemodelResponse, toolchainsResponse]) =
     Inl (Error ''Failed to load cache response from CMake API'')"
    using missing_responses [where indexReply = "exampleIndex ''3.20.0'' [codemodelResponse, toolchainsResponse]"
        and rs = "[codemodelResponse, toolchainsResponse]"
        and e = "exampleEnv ''3.20.0'' [codemodelResponse, toolchainsResponse]"
        and this = newCMakeApi and apiDir = exampleApiDir, OF example_listed,
        unfolded example_join_replyDir l2, THEN conjunct1]
    by (simp add: example_kinds)
  have "\<exists>f. loadResponses (exampleEnv ''3.20.0'' [cacheResponse, codemodelResponse])
      exampleReplyDir (noFlags, newCMakeApi) [cacheResponse, codemodelResponse] = Inr (f, ?st)"
    by (simp add: example_loads newCMakeApi_def)
  then obtain f3 where l3: "loadResponses (exampleEnv ''3.20.0'' [cacheResponse, codemodelResponse])
      exampleReplyDir (noFlags, newCMakeApi) [cacheResponse, codemodelResponse] = Inr (f3, ?st)"
    by force
  have 3: "loadClientResponses (exampleEnv ''3.20.0'' [cacheResponse, codemodelResponse]) newCMakeApi
     exampleApiDir (exampleIndex ''3.20.0'' [cacheResponse, codemodelResponse]) =
     loadToolchainsFromCache ?st"
    using missing_responses [where indexReply = "exampleIndex ''3.20.0'' [cacheResponse, codemodelResponse]"
        and rs = "[cacheResponse, codemodelResponse]"
        and e = "exampleEnv ''3.20.0'' [cacheResponse, codemodelResponse]"
        and this = newCMakeApi and apiDir = exampleApiDir, OF example_listed,
        unfolded example_join_replyDir l3, THEN conjunct1]
    by (simp add: example_kinds)
  from 1 2 3 [unfolded example_fallback] show ?thesis by (intro conjI)
qed

text \<open>
  The claim as stated, that an absent codemodel response raises the missing-response error
  whether or not the other responses loaded, fails where a listed response does not load: an
  index that lists the cache and the toolchains reply of a build with another compiler
  family, and no codemodel, ends in the error of the toolchains loader.
\<close>

theorem missing_codemodel_counterexample:
  "''codemodel'' \<notin> responseKinds [cacheResponse, toolchainsGnuResponse] \<and>
   loadClientResponses (exampleEnv ''3.20.0'' [cacheResponse, toolchainsGnuResponse]) newCMakeApi
     exampleApiDir (exampleIndex ''3.20.0'' [cacheResponse, toolchainsGnuResponse]) =
     Inl (Error ''Action requires use of MSVC for either/both C or C++.'')"
proof -
  have k: "''codemodel'' \<notin> responseKinds [cacheResponse, toolchainsGnuResponse]"
    by (simp add: responseKinds_def cacheResponse_def toolchainsGnuResponse_def)
  have l: "loadResponses (exampleEnv ''3.20.0'' [cacheResponse, toolchainsGnuResponse])
      exampleReplyDir (noFlags, newCMakeApi) [cacheResponse, toolchainsGnuResponse] =
      Inl (Error ''Action requires use of MSVC for either/both C or C++.'')"
    by (simp add: example_loads toolchainsGnuResponse_def example_join_gnu
        example_toolchains_gnu newCMakeApi_def)
  have "loadClientResponses (exampleEnv ''3.20.0'' [cacheResponse, toolchainsGnuResponse]) newCMakeApi
     exampleApiDir (exampleIndex ''3.20.0'' [cacheResponse, toolchainsGnuResponse]) =
     Inl (Error ''Action requires use of MSVC for either/both C or C++.'')"
    unfolding loadClientResponses_listed [OF example_listed] example_join_replyDir l
    by simp
  with k show ?thesis by (intro conjI)
qed

text \<open>
  Claim C9. A group whose language is neither \<open>C\<close> nor \<open>CXX\<close>, or whose language has no
  compiler, yields nothing and raises nothing; the groups around it yield what they yield
  without it, and so does the whole iteration.
\<close>

theorem unsupported_group_skipped:
  "language g \<noteq> ''C'' \<and> language g \<noteq> ''CXX'' \<or>
   language g = ''C'' \<and> cCompilerInfo this = None \<or>
   language g = ''CXX'' \<and> cxxCompilerInfo this = None \<Longrightarrow>
   yieldGroups this td options [g] = ([], None) \<and>
   yieldGroups this td options (gs1 @ g # gs2) = yieldGroups this td options (gs1 @ gs2) \<and>
   (parseReplyFile e target = Inr td \<and> compileGroups td = Some (gs1 @ g # gs2) \<longrightarrow>
      compileCommandsIterator (withoutGroup e target td (gs1 @ gs2)) this options =
      compileCommandsIterator e this options)"
proof -
  assume "language g \<noteq> ''C'' \<and> language g \<noteq> ''CXX'' \<or>
   language g = ''C'' \<and> cCompilerInfo this = None \<or>
   language g = ''CXX'' \<and> cxxCompilerInfo this = None"
  then have n: "selectCompiler this g = None"
    by (auto simp: selectCompiler_def)
  then have 1: "yieldGroups this td options [g] = ([], None)" by simp
  note 2 = yieldGroups_skip [OF n, of td options gs1 gs2]
  have 3: "compileCommandsIterator (withoutGroup e target td (gs1 @ gs2)) this options =
      compileCommandsIterator e this options"
    if "parseReplyFile e target = Inr td" "compileGroups td = Some (gs1 @ g # gs2)"
    using yieldTargets_withoutGroup [OF that n]
    by (simp add: compileCommandsIterator_def)
  from 1 2 3 show ?thesis by blast
qed

text \<open>
  The theorem at the example target, whose second group is in Fortran.
\<close>

theorem unsupported_group_skipped_witness:
  "language fortranGroup \<noteq> ''C'' \<and> language fortranGroup \<noteq> ''CXX'' \<and>
   yieldGroups exampleLoaded exampleTarget exampleOptions [fortranGroup] = ([], None) \<and>
   yieldGroups exampleLoaded exampleTarget exampleOptions [exampleGroup, fortranGroup] =
     yieldGroups exampleLoaded exampleTarget exampleOptions [exampleGroup] \<and>
   compileCommandsIterator
     (withoutGroup (exampleEnv ''3.20.0'' allResponses)
        (winpath [exampleReplyDir, ''target-app.json'']) exampleTarget [exampleGroup])
     exampleLoaded exampleOptions =
   compileCommandsIterator (exampleEnv ''3.20.0'' allResponses) exampleLoaded exampleOptions"
proof -
  have f: "language fortranGroup \<noteq> ''C'' \<and> language fortranGroup \<noteq> ''CXX''"
    by (simp add: fortranGroup_def)
  have c: "compileGroups exampleTarget = Some ([exampleGroup] @ fortranGroup # [])"
    by (simp add: exampleTarget_def emptyDoc_def)
  note t = unsupported_group_skipped [of fortranGroup exampleLoaded exampleTarget exampleOptions
      "[exampleGroup]" "[]" "exampleEnv ''3.20.0'' allResponses"
      "winpath [exampleReplyDir, ''target-app.json'']", OF disjI1, OF f]
  from t have 1: "yieldGroups exampleLoaded exampleTarget exampleOptions [fortranGroup] = ([], None)"
    by (rule conjunct1)
  from t have 2: "yieldGroups exampleLoaded exampleTarget exampleOptions [exampleGroup, fortranGroup] =
     yieldGroups exampleLoaded exampleTarget exampleOptions [exampleGroup]"
    by simp
  from t example_parse_target c have 3: "compileCommandsIterator
     (withoutGroup (exampleEnv ''3.20.0'' allResponses)
        (winpath [exampleReplyDir, ''target-app.json'']) exampleTarget [exampleGroup])
     exampleLoaded exampleOptions =
   compileCommandsIterator (exampleEnv ''3.20.0'' allResponses) exampleLoaded exampleOptions"
    by simp
  from f 1 2 3 show ?thesis by blast
qed

text \<open>
  Claim C3 does not hold of the code: \<open>loadApi\<close> never gets the build tool started. The call
  that should start it raises, so no load starts a child process or returns a loaded object,
  and on the example tree the load ends in that error after the query has been written,
  before any reply of the regeneration is read.
\<close>

theorem loadApi_never_starts_build_tool:
  "Spawn cmakePath buildRoot \<notin> set (fst (loadApi e this buildRoot)) \<and>
   snd (loadApi e this buildRoot) \<noteq> Inr this' \<and>
   loadApi (exampleEnv ''3.20.0'' allResponses) newCMakeApi exampleBuildRoot =
     ([MkDir (winpath [exampleApiDir, ''query'', clientName]),
       WriteFile (winpath [exampleApiDir, ''query'', clientName, ''query.json'']) queryData],
      Inl (TypeError ''child_process.spawn: args is a string''))"
  using loadApi_stops_at_spawn [where c = cmakePath and a = buildRoot and e = e
      and this = this and buildRoot = buildRoot and this' = this']
  by (simp add: example_loadApi)

text \<open>
  Claim C6 does not hold of the code: when the cache has no \<open>CMAKE_C_COMPILER\<close> entry, the
  fallback raises a TypeError at \<open>cPath.endsWith\<close> before it looks at the C++ compiler. So
  does a load of the example tree with the C++-only cache and no toolchains response.
\<close>

theorem fallback_without_c_compiler_raises:
  "loadToolchainsFromCache (newCMakeApi\<lparr>cache := [''CMAKE_CXX_COMPILER'' \<mapsto> exampleClPath]\<rparr>) =
     Inl (TypeError ''cPath.endsWith'') \<and>
   loadClientResponses (exampleEnv ''3.20.0'' [cacheCxxOnlyResponse, codemodelResponse]) newCMakeApi
     exampleApiDir (exampleIndex ''3.20.0'' [cacheCxxOnlyResponse, codemodelResponse]) =
     Inl (TypeError ''cPath.endsWith'')"
proof -
  have 1: "loadToolchainsFromCache (newCMakeApi\<lparr>cache := [''CMAKE_CXX_COMPILER'' \<mapsto> exampleClPath]\<rparr>) =
     Inl (TypeError ''cPath.endsWith'')"
    by (simp add: loadToolchainsFromCache_def)
  have "\<exists>f s. loadResponses (exampleEnv ''3.20.0'' [cacheCxxOnlyResponse, codemodelResponse])
      exampleReplyDir (noFlags, newCMakeApi) [cacheCxxOnlyResponse, codemodelResponse] = Inr (f, s)
      \<and> cache s ''CMAKE_C_COMPILER'' = None"
    by (simp add: example_loads newCMakeApi_def)
  then obtain f s where l: "loadResponses (exampleEnv ''3.20.0'' [cacheCxxOnlyResponse, codemodelResponse])
      exampleReplyDir (noFlags, newCMakeApi) [cacheCxxOnlyResponse, codemodelResponse] = Inr (f, s)"
    and c: "cache s ''CMAKE_C_COMPILER'' = None"
    by blast
  from c have "loadToolchainsFromCache s = Inl (TypeError ''cPath.endsWith'')"
    by (simp add: loadToolchainsFromCache_def)
  then have 2: "loadClientResponses (exampleEnv ''3.20.0'' [cacheCxxOnlyResponse, codemodelResponse]) newCMakeApi
     exampleApiDir (exampleIndex ''3.20.0'' [cacheCxxOnlyResponse, codemodelResponse]) =
     Inl (TypeError ''cPath.endsWith'')"
    unfolding loadClientResponses_listed [OF example_listed] example_join_replyDir l
    by (simp add: example_kinds)
  from 1 2 show ?thesis by (intro conjI)
qed




end
